theory Spec2Isabelle
  imports Main "HOL-Library.Word" "HOL-Library.AList"
begin

unbundle bit_operations_syntax

section \<open>JavaScript values and objects\<close>

text \<open>
  The client is TypeScript running on Node. Strings are modelled as byte strings (the
  UTF-8 encoding that \<^verbatim>\<open>new Buffer(s)\<close>, \<^verbatim>\<open>hmac.update(s)\<close> and
  \<^verbatim>\<open>querystring.escape\<close> all work on). A number is either an integer that
  JavaScript holds exactly (\<open>SafeInt\<close>, 54 bits with sign, printed with all its digits)
  or any other number (a fraction, a larger magnitude, \<^verbatim>\<open>NaN\<close>, an infinity), which
  is given by its display string (\<open>OtherNum\<close>), the text \<^verbatim>\<open>String(n)\<close> returns
  (negative zero has the display string \<^verbatim>\<open>0\<close>). An
  object is its list of own enumerable properties in insertion order; the order in which
  they are enumerated is \<open>own_keys_order\<close>. Objects that the code mutates and that
  the caller can still reach afterwards (the per-call options object and the parameter
  mapping it refers to) live in a heap and are named by \<open>VRef\<close>; \<open>VObj\<close> is an
  object value that nobody else holds (parsed JSON, the \<^verbatim>\<open>headers\<close> literal).
\<close>

type_synonym byte = "8 word"
type_synonym addr = nat

text \<open>A function is the \<^verbatim>\<open>validateStatus\<close> of the client, which returns true, or
  another function, given by its source text.\<close>

datatype jsfun = ConstTrue | Opaque string

definition digit_char :: "nat \<Rightarrow> char" where
  "digit_char n = char_of (48 + n mod 10)"

function show_nat :: "nat \<Rightarrow> string" where
  "show_nat n = (if n < 10 then [digit_char n] else show_nat (n div 10) @ [digit_char n])"
  by pat_completeness auto
termination
  by (relation "measure id") auto

declare show_nat.simps [simp del]

definition show_int :: "int \<Rightarrow> string" where
  "show_int i = (if i < 0 then CHR ''-'' # show_nat (nat (- i)) else show_nat (nat i))"

datatype jsnum = SafeInt "54 word" | OtherNum string

definition num_string :: "jsnum \<Rightarrow> string" where
  "num_string n = (case n of SafeInt i \<Rightarrow> show_int (sint i) | OtherNum s \<Rightarrow> s)"

definition is_finite :: "jsnum \<Rightarrow> bool" where
  "is_finite n =
     (case n of
        SafeInt i \<Rightarrow> True
      | OtherNum s \<Rightarrow> s \<noteq> ''NaN'' \<and> s \<noteq> ''Infinity'' \<and> s \<noteq> ''-Infinity'')"

datatype jsval =
    VUndefined
  | VNull
  | VBool bool
  | VNum jsnum
  | VStr string
  | VArr "jsval list"
  | VObj "(string \<times> jsval) list"
  | VRef addr
  | VFn jsfun

type_synonym obj = "(string \<times> jsval) list"

fun truthy :: "jsval \<Rightarrow> bool" where
  "truthy VUndefined = False"
| "truthy VNull = False"
| "truthy (VBool b) = b"
| "truthy (VNum n) = (num_string n \<noteq> ''0'' \<and> num_string n \<noteq> ''NaN'')"
| "truthy (VStr s) = (s \<noteq> [])"
| "truthy _ = True"

fun callable :: "jsval \<Rightarrow> bool" where
  "callable (VFn f) = True"
| "callable _ = False"

definition is_digit :: "char \<Rightarrow> bool" where
  "is_digit c = (48 \<le> (of_char c :: nat) \<and> (of_char c :: nat) \<le> 57)"

definition parse_index :: "string \<Rightarrow> nat option" where
  "parse_index k =
     (if k \<noteq> [] \<and> list_all is_digit k \<and> (hd k \<noteq> CHR ''0'' \<or> length k = 1)
      then Some (foldl (\<lambda>n c. 10 * n + (of_char c - 48)) 0 k)
      else None)"

text \<open>
  \<^verbatim>\<open>Object.keys\<close>, \<^verbatim>\<open>Object.assign\<close> and \<^verbatim>\<open>for-in\<close> enumerate the array indices
  among the keys first (the decimal numerals below \<open>2^32 - 1\<close>), in ascending order, and
  then the other keys in the order in which they were added.
\<close>

definition is_array_index :: "string \<Rightarrow> bool" where
  "is_array_index k = (case parse_index k of Some i \<Rightarrow> i < 4294967295 | None \<Rightarrow> False)"

definition index_of :: "string \<Rightarrow> nat" where
  "index_of k = (case parse_index k of Some i \<Rightarrow> i | None \<Rightarrow> 0)"

definition own_keys_order :: "obj \<Rightarrow> obj" where
  "own_keys_order ob =
     sort_key (\<lambda>(k, v). index_of k) (filter (\<lambda>(k, v). is_array_index k) ob)
     @ filter (\<lambda>(k, v). \<not> is_array_index k) ob"

definition get_prop :: "obj \<Rightarrow> string \<Rightarrow> jsval" where
  "get_prop ob k = (case map_of ob k of Some v \<Rightarrow> v | None \<Rightarrow> VUndefined)"

definition has_prop :: "obj \<Rightarrow> string \<Rightarrow> bool" where
  "has_prop ob k = (map_of ob k \<noteq> None)"

definition set_prop :: "string \<Rightarrow> jsval \<Rightarrow> obj \<Rightarrow> obj" where
  "set_prop k v ob = AList.update k v ob"

definition delete_prop :: "string \<Rightarrow> obj \<Rightarrow> obj" where
  "delete_prop k ob = AList.delete k ob"

text \<open>\<^verbatim>\<open>Object.assign(target, source)\<close>: every own property of the source is written to
  the target, in the order in which the source enumerates them; the result is the
  (mutated) target.\<close>

definition Object_assign :: "obj \<Rightarrow> obj \<Rightarrow> obj" where
  "Object_assign target source =
     foldl (\<lambda>t (k, v). set_prop k v t) target (own_keys_order source)"

subsection \<open>Text\<close>

definition join :: "string \<Rightarrow> string list \<Rightarrow> string" where
  "join sep xs = (case xs of [] \<Rightarrow> [] | x # rest \<Rightarrow> x @ concat (map (\<lambda>y. sep @ y) rest))"

text \<open>
  The string a template literal \<^verbatim>\<open>`${v}`\<close> puts in for a value; \<open>None\<close> when the
  conversion throws a \<^verbatim>\<open>TypeError\<close>. An object is converted through its
  \<^verbatim>\<open>toString\<close>: the inherited one gives \<^verbatim>\<open>[object Object]\<close>, but an own property of
  that name that came out of \<^verbatim>\<open>JSON.parse\<close> is not a function, and then the object
  cannot be converted. An array joins the texts of its elements.
\<close>

fun ToString :: "jsval \<Rightarrow> string option" where
  "ToString VUndefined = Some ''undefined''"
| "ToString VNull = Some ''null''"
| "ToString (VBool b) = Some (if b then ''true'' else ''false'')"
| "ToString (VNum n) = Some (num_string n)"
| "ToString (VStr s) = Some s"
| "ToString (VArr xs) =
     (let parts = map (\<lambda>x. if x = VUndefined \<or> x = VNull then Some [] else ToString x) xs
      in if None \<in> set parts then None else Some (join '','' (map the parts)))"
| "ToString (VObj ps) = (if has_prop ps ''toString'' then None else Some ''[object Object]'')"
| "ToString (VRef a) = Some ''[object Object]''"
| "ToString (VFn f) =
     Some (case f of ConstTrue \<Rightarrow> ''() => { return true }'' | Opaque src \<Rightarrow> src)"

section \<open>Node library functions used by the client\<close>

subsection \<open>\<^verbatim>\<open>Buffer.toString('base64')\<close>\<close>

text \<open>The alphabet \<^verbatim>\<open>A-Z a-z 0-9 + /\<close>, by the position of each range in ASCII.\<close>

definition b64digit :: "nat \<Rightarrow> char" where
  "b64digit n =
     (if n < 26 then char_of (65 + n)
      else if n < 52 then char_of (71 + n)
      else if n < 62 then char_of (n - 4)
      else if n = 62 then CHR ''+'' else CHR ''/'')"

fun base64 :: "byte list \<Rightarrow> string" where
  "base64 [] = []"
| "base64 [a] =
     [b64digit (unat a div 4), b64digit (unat a mod 4 * 16), CHR ''='', CHR ''='']"
| "base64 [a, b] =
     [b64digit (unat a div 4), b64digit (unat a mod 4 * 16 + unat b div 16),
      b64digit (unat b mod 16 * 4), CHR ''='']"
| "base64 (a # b # c # rest) =
     [b64digit (unat a div 4), b64digit (unat a mod 4 * 16 + unat b div 16),
      b64digit (unat b mod 16 * 4 + unat c div 64), b64digit (unat c mod 64)] @ base64 rest"

text \<open>The inverse reading of a base64 text; it is used to show that distinct byte
  strings have distinct encodings.\<close>

definition b64value :: "char \<Rightarrow> nat" where
  "b64value c =
     (let n = (of_char c :: nat)
      in if 65 \<le> n \<and> n \<le> 90 then n - 65
         else if 97 \<le> n \<and> n \<le> 122 then n - 71
         else if 48 \<le> n \<and> n \<le> 57 then n + 4
         else if n = 43 then 62 else 63)"

fun unbase64 :: "string \<Rightarrow> byte list" where
  "unbase64 (c1 # c2 # c3 # c4 # rest) =
     (let v1 = b64value c1; v2 = b64value c2; v3 = b64value c3; v4 = b64value c4
      in if c3 = CHR ''='' then [of_nat (v1 * 4 + v2 div 16)]
         else if c4 = CHR ''='' then
           [of_nat (v1 * 4 + v2 div 16), of_nat (v2 mod 16 * 16 + v3 div 4)]
         else [of_nat (v1 * 4 + v2 div 16), of_nat (v2 mod 16 * 16 + v3 div 4),
               of_nat (v3 mod 4 * 64 + v4)] @ unbase64 rest)"
| "unbase64 _ = []"

subsection \<open>\<^verbatim>\<open>querystring.stringify\<close>\<close>

definition unreserved :: "char \<Rightarrow> bool" where
  "unreserved c =
     (let n = (of_char c :: nat)
      in (65 \<le> n \<and> n \<le> 90) \<or> (97 \<le> n \<and> n \<le> 122) \<or> (48 \<le> n \<and> n \<le> 57)
         \<or> n \<in> {33, 39, 40, 41, 42, 45, 46, 95, 126})"

definition hexdigit_upper :: "nat \<Rightarrow> char" where
  "hexdigit_upper n = (if n < 10 then char_of (48 + n) else char_of (55 + n))"

definition escape_char :: "char \<Rightarrow> string" where
  "escape_char c =
     (if unreserved c then [c]
      else [CHR ''%'', hexdigit_upper ((of_char c :: nat) div 16),
            hexdigit_upper ((of_char c :: nat) mod 16)])"

definition qsEscape :: "string \<Rightarrow> string" where
  "qsEscape s = concat (map escape_char s)"

fun stringifyPrimitive :: "jsval \<Rightarrow> string" where
  "stringifyPrimitive (VStr s) = s"
| "stringifyPrimitive (VNum n) = (if is_finite n then num_string n else [])"
| "stringifyPrimitive (VBool b) = (if b then ''true'' else ''false'')"
| "stringifyPrimitive _ = []"

definition field :: "string \<Rightarrow> jsval \<Rightarrow> string" where
  "field k v = qsEscape k @ ''='' @ qsEscape (stringifyPrimitive v)"

text \<open>
  The loop of \<^verbatim>\<open>stringify\<close> over \<^verbatim>\<open>Object.keys(obj)\<close>: one field per key, one field
  per element for an array value, the separator after a key that produced a field
  when it is not the last key.
\<close>

fun stringify_loop :: "obj \<Rightarrow> string" where
  "stringify_loop [] = []"
| "stringify_loop ((k, v) # rest) =
     (case v of
        VArr vs \<Rightarrow>
          join ''&'' (map (field k) vs) @ (if vs \<noteq> [] \<and> rest \<noteq> [] then ''&'' else [])
      | _ \<Rightarrow> field k v @ (if rest \<noteq> [] then ''&'' else []))
     @ stringify_loop rest"

definition stringify :: "obj \<Rightarrow> string" where
  "stringify ob = stringify_loop (own_keys_order ob)"


fun split_on :: "char \<Rightarrow> string \<Rightarrow> string list" where
  "split_on c [] = [[]]"
| "split_on c (x # xs) =
     (if x = c then [] # split_on c xs
      else (case split_on c xs of [] \<Rightarrow> [[x]] | y # ys \<Rightarrow> (x # y) # ys))"

subsection \<open>The \<^verbatim>\<open>url-join\<close> package\<close>

text \<open>
  Modelled from the spec: the \<^verbatim>\<open>url-join\<close> package, which the client imports as
  \<^verbatim>\<open>url\<close> and whose code is not part of the sources. The specification asks for a join
  with "no duplicate or missing path separators regardless of leading/trailing slashes";
  the package does it this way: every component but the first loses its leading slashes,
  every component but the last loses its trailing slashes (the last keeps one), empty
  components are skipped, the components are joined with one slash, a slash directly
  before \<^verbatim>\<open>?\<close>, \<^verbatim>\<open>&\<close> or a \<^verbatim>\<open>#\<close> fragment is dropped, and every \<^verbatim>\<open>?\<close> after the
  first becomes \<^verbatim>\<open>&\<close>. The first component is always the fixed base
  \<^verbatim>\<open>https://bittrex.com/api/\<close>, whose protocol part the package leaves as it is.
\<close>

definition strip_leading_slashes :: "string \<Rightarrow> string" where
  "strip_leading_slashes s = dropWhile (\<lambda>c. c = CHR ''/'') s"

definition strip_trailing_slashes :: "string \<Rightarrow> string" where
  "strip_trailing_slashes s = rev (dropWhile (\<lambda>c. c = CHR ''/'') (rev s))"


fun url_components :: "bool \<Rightarrow> string list \<Rightarrow> string list" where
  "url_components first [] = []"
| "url_components first (c # cs) =
     (if c = [] then url_components False cs
      else (let c1 = (if first then c else strip_leading_slashes c);
                c2 = (if cs \<noteq> [] then strip_trailing_slashes c1
                      else if c1 \<noteq> [] \<and> last c1 = CHR ''/''
                           then strip_trailing_slashes c1 @ ''/'' else c1)
            in c2 # url_components False cs))"

fun drop_slash_before_query :: "string \<Rightarrow> string" where
  "drop_slash_before_query (a # b # rest) =
     (if a = CHR ''/'' \<and> (b = CHR ''?'' \<or> b = CHR ''&'') then b # drop_slash_before_query rest
      else if a = CHR ''/'' \<and> b = CHR ''#'' then
        (case rest of
           c # rest' \<Rightarrow>
             if c \<noteq> CHR ''!'' then b # c # drop_slash_before_query rest'
             else a # drop_slash_before_query (b # rest)
         | [] \<Rightarrow> a # drop_slash_before_query (b # rest))
      else a # drop_slash_before_query (b # rest))"
| "drop_slash_before_query s = s"

definition first_query_only :: "string \<Rightarrow> string" where
  "first_query_only s =
     (case dropWhile (\<lambda>c. c \<noteq> CHR ''?'') s of
        [] \<Rightarrow> s
      | q # rest \<Rightarrow>
          takeWhile (\<lambda>c. c \<noteq> CHR ''?'') s @ [q]
          @ map (\<lambda>c. if c = CHR ''?'' then CHR ''&'' else c) rest)"

definition url_join :: "string list \<Rightarrow> string" where
  "url_join parts =
     first_query_only (drop_slash_before_query (join ''/'' (url_components True parts)))"

subsection \<open>\<^verbatim>\<open>crypto.createHmac('sha512', key)\<close>\<close>

text \<open>SHA-512 (FIPS 180-4) on byte strings and HMAC (RFC 2104) over it, with the
  128-byte block of SHA-512. The round constants are the first 64 bits of the fractional
  parts of the cube roots of the first 80 primes, the initial state those of the square
  roots of the first 8 primes, written in decimal.\<close>

type_synonym w64 = "64 word"
type_synonym sha_state = "w64 \<times> w64 \<times> w64 \<times> w64 \<times> w64 \<times> w64 \<times> w64 \<times> w64"

definition K512 :: "w64 list" where
  "K512 =
    [4794697086780616226, 8158064640168781261, 13096744586834688815,
     16840607885511220156, 4131703408338449720, 6480981068601479193,
     10538285296894168987, 12329834152419229976, 15566598209576043074,
     1334009975649890238, 2608012711638119052, 6128411473006802146,
     8268148722764581231, 9286055187155687089, 11230858885718282805,
     13951009754708518548, 16472876342353939154, 17275323862435702243,
     1135362057144423861, 2597628984639134821, 3308224258029322869,
     5365058923640841347, 6679025012923562964, 8573033837759648693,
     10970295158949994411, 12119686244451234320, 12683024718118986047,
     13788192230050041572, 14330467153632333762, 15395433587784984357,
     489312712824947311, 1452737877330783856, 2861767655752347644,
     3322285676063803686, 5560940570517711597, 5996557281743188959,
     7280758554555802590, 8532644243296465576, 9350256976987008742,
     10552545826968843579, 11727347734174303076, 12113106623233404929,
     14000437183269869457, 14369950271660146224, 15101387698204529176,
     15463397548674623760, 17586052441742319658, 1182934255886127544,
     1847814050463011016, 2177327727835720531, 2830643537854262169,
     3796741975233480872, 4115178125766777443, 5681478168544905931,
     6601373596472566643, 7507060721942968483, 8399075790359081724,
     8693463985226723168, 9568029438360202098, 10144078919501101548,
     10430055236837252648, 11840083180663258601, 13761210420658862357,
     14299343276471374635, 14566680578165727644, 15097957966210449927,
     16922976911328602910, 17689382322260857208, 500013540394364858,
     748580250866718886, 1242879168328830382, 1977374033974150939,
     2944078676154940804, 3659926193048069267, 4368137639120453308,
     4836135668995329356, 5532061633213252278, 6448918945643986474,
     6902733635092675308, 7801388544844847127]"

definition H512 :: sha_state where
  "H512 =
    (7640891576956012808, 13503953896175478587,
     4354685564936845355, 11912009170470909681,
     5840696475078001361, 11170449401992604703,
     2270897969802886507, 6620516959819538809)"

definition be64 :: "byte list \<Rightarrow> w64" where
  "be64 bs = foldl (\<lambda>acc b. push_bit 8 acc OR ucast b) 0 bs"

definition be_bytes :: "nat \<Rightarrow> nat \<Rightarrow> byte list" where
  "be_bytes len n = map (\<lambda>i. of_nat (n div 256 ^ i)) (rev [0..<len])"

definition Ch :: "w64 \<Rightarrow> w64 \<Rightarrow> w64 \<Rightarrow> w64" where
  "Ch x y z = (x AND y) XOR (NOT x AND z)"

definition Maj :: "w64 \<Rightarrow> w64 \<Rightarrow> w64 \<Rightarrow> w64" where
  "Maj x y z = (x AND y) XOR (x AND z) XOR (y AND z)"

definition Sigma0 :: "w64 \<Rightarrow> w64" where
  "Sigma0 x = word_rotr 28 x XOR word_rotr 34 x XOR word_rotr 39 x"

definition Sigma1 :: "w64 \<Rightarrow> w64" where
  "Sigma1 x = word_rotr 14 x XOR word_rotr 18 x XOR word_rotr 41 x"

definition sigma0 :: "w64 \<Rightarrow> w64" where
  "sigma0 x = word_rotr 1 x XOR word_rotr 8 x XOR drop_bit 7 x"

definition sigma1 :: "w64 \<Rightarrow> w64" where
  "sigma1 x = word_rotr 19 x XOR word_rotr 61 x XOR drop_bit 6 x"

fun schedule :: "nat \<Rightarrow> w64 list \<Rightarrow> w64 list" where
  "schedule 0 w = w"
| "schedule (Suc n) w =
     (let t = length w
      in schedule n
           (w @ [sigma1 (w ! (t - 2)) + w ! (t - 7) + sigma0 (w ! (t - 15)) + w ! (t - 16)]))"

fun sha_round :: "sha_state \<Rightarrow> w64 \<times> w64 \<Rightarrow> sha_state" where
  "sha_round (a, b, c, d, e, f, g, h) (k, w) =
     (let t1 = h + Sigma1 e + Ch e f g + k + w;
          t2 = Sigma0 a + Maj a b c
      in (t1 + t2, a, b, c, d + t1, e, f, g))"

fun add_state :: "sha_state \<Rightarrow> sha_state \<Rightarrow> sha_state" where
  "add_state (a, b, c, d, e, f, g, h) (a', b', c', d', e', f', g', h') =
     (a + a', b + b', c + c', d + d', e + e', f + f', g + g', h + h')"

definition compress :: "sha_state \<Rightarrow> byte list \<Rightarrow> sha_state" where
  "compress st block =
     (let w = schedule 64 (map (\<lambda>i. be64 (take 8 (drop (8 * i) block))) [0..<16])
      in add_state st (foldl sha_round st (zip K512 w)))"

function sha512_blocks :: "sha_state \<Rightarrow> byte list \<Rightarrow> sha_state" where
  "sha512_blocks st m =
     (if length m < 128 then st else sha512_blocks (compress st (take 128 m)) (drop 128 m))"
  by pat_completeness auto
termination
  by (relation "measure (\<lambda>(st, m). length m)") auto

definition sha512_pad :: "byte list \<Rightarrow> byte list" where
  "sha512_pad m =
     m @ [0x80] @ replicate ((239 - length m mod 128) mod 128) 0 @ be_bytes 16 (8 * length m)"

fun state_bytes :: "sha_state \<Rightarrow> byte list" where
  "state_bytes (a, b, c, d, e, f, g, h) =
     concat (map (\<lambda>x. be_bytes 8 (unat x)) [a, b, c, d, e, f, g, h])"

definition sha512 :: "byte list \<Rightarrow> byte list" where
  "sha512 m = state_bytes (sha512_blocks H512 (sha512_pad m))"

definition hmac_sha512 :: "byte list \<Rightarrow> byte list \<Rightarrow> byte list" where
  "hmac_sha512 key msg =
     (let k0 = (if 128 < length key then sha512 key else key);
          k = k0 @ replicate (128 - length k0) 0
      in sha512 (map (\<lambda>b. b XOR 0x5c) k @ sha512 (map (\<lambda>b. b XOR 0x36) k @ msg)))"

text \<open>\<^verbatim>\<open>digest('hex')\<close>: two lowercase hexadecimal digits per byte.\<close>

definition hexdigit :: "nat \<Rightarrow> char" where
  "hexdigit n = (if n < 10 then char_of (48 + n) else char_of (87 + n))"

definition hex :: "byte list \<Rightarrow> string" where
  "hex bs = concat (map (\<lambda>b. [hexdigit (unat b div 16), hexdigit (unat b mod 16)]) bs)"

definition lower_hex_char :: "char \<Rightarrow> bool" where
  "lower_hex_char c =
     (let n = (of_char c :: nat) in (48 \<le> n \<and> n \<le> 57) \<or> (97 \<le> n \<and> n \<le> 102))"

section \<open>The client\<close>

subsection \<open>Errors (\<^verbatim>\<open>errors.ts\<close>)\<close>

text \<open>An \<^verbatim>\<open>Error\<close> object as the transport throws it, and \<^verbatim>\<open>Error.prototype.toString\<close>.\<close>

record js_error =
  err_name :: string
  err_message :: string
  err_stack :: "string option"

definition Error_toString :: "string \<Rightarrow> string \<Rightarrow> string" where
  "Error_toString nm msg = (if nm = [] then msg else if msg = [] then nm else nm @ '': '' @ msg)"

text \<open>The failures a call can end with: the two error classes of the client, with the
  fields their constructors set (\<open>stack = None\<close> is the error's own trace, \<open>Some s\<close>
  a trace taken over from a wrapped error), and the \<^verbatim>\<open>TypeError\<close> the engine throws
  when a property of \<^verbatim>\<open>null\<close> or \<^verbatim>\<open>undefined\<close> is read or an object cannot be
  converted to a string.\<close>

datatype failure =
    BittrexHttpError (name: string) (message: string) (stack: "string option")
      (bittexMessage: jsval) (statusCode: jsval)
  | BittrexRestApiError (name: string) (message: string) (bittexMessage: jsval)
  | TypeError (message: string)

fun new_BittrexHttpError :: "string + js_error \<Rightarrow> jsval \<Rightarrow> jsval \<Rightarrow> failure" where
  "new_BittrexHttpError (Inl msg) bm sc = BittrexHttpError ''HTTPError'' msg None bm sc"
| "new_BittrexHttpError (Inr e) bm sc =
     BittrexHttpError ''HTTPError'' (Error_toString (err_name e) (err_message e))
       (case err_stack e of Some s \<Rightarrow> if s \<noteq> [] then Some s else None | None \<Rightarrow> None)
       bm sc"

text \<open>What \<^verbatim>\<open>throw new BittrexRestApiError(bm)\<close> throws: the error, or the
  \<^verbatim>\<open>TypeError\<close> of the template literal in the constructor.\<close>

definition new_BittrexRestApiError :: "jsval \<Rightarrow> failure" where
  "new_BittrexRestApiError bm =
     (case ToString bm of
        None \<Rightarrow> TypeError ''Cannot convert object to primitive value''
      | Some text \<Rightarrow>
          BittrexRestApiError ''BittrexRestApiError''
            (''bittrex returned '' @ [CHR 0x22] @ text @ [CHR 0x22] @ '' error'') bm)"

fun toString :: "failure \<Rightarrow> string" where
  "toString (BittrexHttpError nm msg st bm sc) = Error_toString nm msg"
| "toString (BittrexRestApiError nm msg bm) = Error_toString nm msg"
| "toString (TypeError msg) = Error_toString ''TypeError'' msg"

subsection \<open>The world the client runs in\<close>

text \<open>
  \<open>heap\<close> holds the objects the caller shares with the client, \<open>AXIOS_DEFAULTS\<close> is
  the module-level constant of \<^verbatim>\<open>rest-client.ts\<close>, \<open>entropy\<close> the bytes that
  \<^verbatim>\<open>crypto.randomBytes\<close> will hand out and \<open>drawn\<close> how many of them are used,
  \<open>network\<close> what the transport answers to a request configuration issued through an
  axios instance with the given instance configuration, and \<open>sent\<close> the request
  configurations handed to the transport so far. Logging changes none of these and is
  left out.
\<close>

text \<open>The status code is the 16-bit number of Node's HTTP parser, the status text a
  string or (with the mocked transport of the tests) \<^verbatim>\<open>null\<close>.\<close>

record AxiosResponse =
  status :: "16 word"
  statusText :: "string option"
  data :: jsval

definition status_text :: "string option \<Rightarrow> jsval" where
  "status_text t = (case t of Some s \<Rightarrow> VStr s | None \<Rightarrow> VNull)"

definition status_text_string :: "string option \<Rightarrow> string" where
  "status_text_string t = (case t of Some s \<Rightarrow> s | None \<Rightarrow> ''null'')"

record world =
  heap :: "addr \<Rightarrow> obj option"
  next_addr :: addr
  AXIOS_DEFAULTS :: obj
  entropy :: "nat \<Rightarrow> byte"
  drawn :: nat
  network :: "obj \<Rightarrow> obj \<Rightarrow> js_error + AxiosResponse"
  sent :: "obj list"

definition deref :: "world \<Rightarrow> addr \<Rightarrow> obj" where
  "deref w a = (case heap w a of Some ob \<Rightarrow> ob | None \<Rightarrow> [])"

definition store :: "addr \<Rightarrow> obj \<Rightarrow> world \<Rightarrow> world" where
  "store a ob w = w\<lparr>heap := (heap w)(a \<mapsto> ob)\<rparr>"

definition alloc :: "obj \<Rightarrow> world \<Rightarrow> addr \<times> world" where
  "alloc ob w =
     (next_addr w, w\<lparr>heap := (heap w)(next_addr w \<mapsto> ob), next_addr := Suc (next_addr w)\<rparr>)"

text \<open>The own enumerable properties of the object a value is, or is wrapped into, in
  \<^verbatim>\<open>Object.keys\<close> order.\<close>

fun own_entries :: "world \<Rightarrow> jsval \<Rightarrow> obj" where
  "own_entries w (VRef a) = deref w a"
| "own_entries w (VObj ps) = ps"
| "own_entries w (VArr xs) = zip (map show_nat [0..<length xs]) xs"
| "own_entries w (VStr s) = zip (map show_nat [0..<length s]) (map (\<lambda>c. VStr [c]) s)"
| "own_entries w _ = []"

text \<open>Reading a property \<^verbatim>\<open>v.k\<close> or \<^verbatim>\<open>v[k]\<close>. The names read by the client
  (\<^verbatim>\<open>success\<close>, \<^verbatim>\<open>message\<close>, \<^verbatim>\<open>result\<close>, \<^verbatim>\<open>0\<close>) are not inherited from any
  prototype.\<close>

fun GetV :: "world \<Rightarrow> jsval \<Rightarrow> string \<Rightarrow> failure + jsval" where
  "GetV w VUndefined k =
     Inl (TypeError (''Cannot read property '' @ [CHR 0x27] @ k @ [CHR 0x27] @ '' of undefined''))"
| "GetV w VNull k =
     Inl (TypeError (''Cannot read property '' @ [CHR 0x27] @ k @ [CHR 0x27] @ '' of null''))"
| "GetV w (VObj ps) k = Inr (get_prop ps k)"
| "GetV w (VRef a) k = Inr (get_prop (deref w a) k)"
| "GetV w (VArr xs) k =
     Inr (case parse_index k of
            Some i \<Rightarrow> if i < length xs then xs ! i else VUndefined
          | None \<Rightarrow>
              if k = ''length'' then VNum (SafeInt (of_nat (length xs))) else VUndefined)"
| "GetV w (VStr s) k =
     Inr (case parse_index k of
            Some i \<Rightarrow> if i < length s then VStr [s ! i] else VUndefined
          | None \<Rightarrow>
              if k = ''length'' then VNum (SafeInt (of_nat (length s))) else VUndefined)"
| "GetV w v k = Inr VUndefined"

subsection \<open>Nonce and signature (\<^verbatim>\<open>utils.ts\<close>)\<close>

definition randomBytes :: "nat \<Rightarrow> world \<Rightarrow> byte list \<times> world" where
  "randomBytes n w = (map (entropy w) [drawn w..<drawn w + n], w\<lparr>drawn := drawn w + n\<rparr>)"

definition getNonce :: "world \<Rightarrow> string \<times> world" where
  "getNonce w = (let (bytes, w') = randomBytes 16 w in (base64 bytes, w'))"

definition getHmac :: "string \<Rightarrow> string \<Rightarrow> string" where
  "getHmac uri apisecret = hex (hmac_sha512 (map of_char apisecret) (map of_char uri))"

subsection \<open>\<^verbatim>\<open>RestClient\<close> (\<^verbatim>\<open>rest-client.ts\<close>)\<close>

record BittrexApiOptions =
  apikey :: string
  apisecret :: string
  axiosOptions :: "obj option"
  apiVersion :: "string option"

record RestClient =
  options :: BittrexApiOptions
  axios :: obj

definition initial_AXIOS_DEFAULTS :: obj where
  "initial_AXIOS_DEFAULTS = [(''timeout'', VNum (SafeInt 15000))]"

text \<open>The constructor. \<^verbatim>\<open>Object.assign\<close> writes into its first argument, which is the
  module-level \<^verbatim>\<open>AXIOS_DEFAULTS\<close>; \<^verbatim>\<open>axios.create\<close> keeps the configuration it is
  given as the configuration of the new instance.\<close>

definition new_RestClient :: "BittrexApiOptions \<Rightarrow> world \<Rightarrow> RestClient \<times> world" where
  "new_RestClient opts w =
     (let merged = Object_assign (AXIOS_DEFAULTS w)
                     (case axiosOptions opts of Some ob \<Rightarrow> ob | None \<Rightarrow> []);
          w' = w\<lparr>AXIOS_DEFAULTS := merged\<rparr>
      in (\<lparr>options = opts, axios = merged\<rparr>, w'))"

text \<open>
  \<^verbatim>\<open>http\<close>, first half (up to \<^verbatim>\<open>requestOptions\<close>): the query string, the full URL
  and the request configuration. \<open>optarg = None\<close> is a call without options, for which
  the default \<^verbatim>\<open>{}\<close> is created.
\<close>

definition http_request ::
  "RestClient \<Rightarrow> string \<Rightarrow> addr option \<Rightarrow> world \<Rightarrow> (string \<times> string \<times> obj) \<times> world" where
  "http_request self path optarg w0 =
     (let (opts, w1) = (case optarg of Some a \<Rightarrow> (a, w0) | None \<Rightarrow> alloc [] w0);
          p = get_prop (deref w1 opts) ''params'';
          target = (if truthy p then p else VObj []);
          (nonce, w2) = getNonce w1;
          merged = Object_assign (own_entries w2 target)
                     [(''apikey'', VStr (apikey (options self))), (''nonce'', VStr nonce)];
          w3 = (case target of VRef a \<Rightarrow> store a merged w2 | _ \<Rightarrow> w2);
          querystring = (if callable target then [] else stringify merged);
          w4 = store opts (delete_prop ''params'' (deref w3 opts)) w3;
          fullUrl = url_join
                      [''https://bittrex.com/api/'',
                       (case apiVersion (options self) of
                          Some v \<Rightarrow> if v \<noteq> [] then v else ''v1.1''
                        | None \<Rightarrow> ''v1.1''),
                       path,
                       ''?'' @ querystring];
          requestOptions = Object_assign
                             [(''url'', VStr fullUrl),
                              (''headers'',
                               VObj [(''apisign'',
                                      VStr (getHmac fullUrl (apisecret (options self))))]),
                              (''validateStatus'', VFn ConstTrue)]
                             (deref w4 opts)
      in ((querystring, fullUrl, requestOptions), w4))"

text \<open>\<^verbatim>\<open>http\<close>, second half: what becomes of the transport's outcome.\<close>

definition http_decide :: "world \<Rightarrow> js_error + AxiosResponse \<Rightarrow> failure + AxiosResponse" where
  "http_decide w outcome =
     (case outcome of
        Inl e \<Rightarrow> Inl (new_BittrexHttpError (Inr e) VUndefined VUndefined)
      | Inr result \<Rightarrow>
          if status result \<noteq> 200 then
            Inl (new_BittrexHttpError
                   (Inl (''received http '' @ show_nat (unat (status result))
                         @ '' from bittrex with message '' @ [CHR 0x22]
                         @ status_text_string (statusText result) @ [CHR 0x22]))
                   (status_text (statusText result)) (VNum (SafeInt (ucast (status result)))))
          else
            (case GetV w (data result) ''success'' of
               Inl err \<Rightarrow> Inl err
             | Inr s \<Rightarrow>
                 if truthy s then Inr result
                 else (case GetV w (data result) ''message'' of
                         Inl err \<Rightarrow> Inl err
                       | Inr m \<Rightarrow> Inl (new_BittrexRestApiError m))))"

definition http ::
  "RestClient \<Rightarrow> string \<Rightarrow> addr option \<Rightarrow> world \<Rightarrow> (failure + AxiosResponse) \<times> world" where
  "http self path optarg w0 =
     (let ((querystring, fullUrl, requestOptions), w1) = http_request self path optarg w0;
          w2 = w1\<lparr>sent := sent w1 @ [requestOptions]\<rparr>
      in (http_decide w2 (network w2 (axios self) requestOptions), w2))"

subsection \<open>The endpoint methods\<close>

text \<open>\<^verbatim>\<open>this.http(path, { params: {...} })\<close>: the two object literals are created, then
  the call is made. \<open>result_of\<close> is \<^verbatim>\<open>ret.data.result\<close> after \<^verbatim>\<open>await\<close>.\<close>

definition http_with_params ::
  "RestClient \<Rightarrow> string \<Rightarrow> obj \<Rightarrow> world \<Rightarrow> (failure + AxiosResponse) \<times> world" where
  "http_with_params self path ps w =
     (let (p, w1) = alloc ps w;
          (opts, w2) = alloc [(''params'', VRef p)] w1
      in http self path (Some opts) w2)"

definition result_of :: "(failure + AxiosResponse) \<times> world \<Rightarrow> (failure + jsval) \<times> world" where
  "result_of rw =
     (case rw of
        (Inl e, w) \<Rightarrow> (Inl e, w)
      | (Inr ret, w) \<Rightarrow> (GetV w (data ret) ''result'', w))"

text \<open>An optional string argument as a value, and the text a template literal puts in
  for it.\<close>

definition opt_val :: "string option \<Rightarrow> jsval" where
  "opt_val s = (case s of Some x \<Rightarrow> VStr x | None \<Rightarrow> VUndefined)"

definition opt_text :: "string option \<Rightarrow> string" where
  "opt_text s = (case s of Some x \<Rightarrow> x | None \<Rightarrow> ''undefined'')"

datatype OrderBookType = BUY | SELL | BOTH

fun toLowerCase :: "OrderBookType \<Rightarrow> string" where
  "toLowerCase BUY = ''buy''"
| "toLowerCase SELL = ''sell''"
| "toLowerCase BOTH = ''both''"

definition getMarkets :: "RestClient \<Rightarrow> world \<Rightarrow> (failure + jsval) \<times> world" where
  "getMarkets self w = result_of (http self ''/public/getmarkets'' None w)"

definition getCurrencies :: "RestClient \<Rightarrow> world \<Rightarrow> (failure + jsval) \<times> world" where
  "getCurrencies self w = result_of (http self ''/public/getcurrencies'' None w)"

definition getTicker ::
  "RestClient \<Rightarrow> string \<Rightarrow> string \<Rightarrow> world \<Rightarrow> (failure + jsval) \<times> world" where
  "getTicker self tickerA tickerB w =
     (let market = tickerA @ ''-'' @ tickerB
      in result_of (http_with_params self ''/public/getticker'' [(''market'', VStr market)] w))"

definition getMarketSummaries :: "RestClient \<Rightarrow> world \<Rightarrow> (failure + jsval) \<times> world" where
  "getMarketSummaries self w = result_of (http self ''/public/getmarketsummaries'' None w)"

definition getMarketSummary ::
  "RestClient \<Rightarrow> string \<Rightarrow> string \<Rightarrow> world \<Rightarrow> (failure + jsval) \<times> world" where
  "getMarketSummary self tickerA tickerB w =
     (case result_of (http_with_params self ''/public/getmarketsummary''
                        [(''market'', VStr (tickerA @ ''-'' @ tickerB))] w) of
        (Inl e, w') \<Rightarrow> (Inl e, w')
      | (Inr r, w') \<Rightarrow> (GetV w' r ''0'', w'))"

definition getOrderBook ::
  "RestClient \<Rightarrow> string \<Rightarrow> string \<Rightarrow> OrderBookType \<Rightarrow> world \<Rightarrow> (failure + jsval) \<times> world" where
  "getOrderBook self tickerA tickerB type w =
     result_of (http_with_params self ''/public/getorderbook''
                  [(''market'', VStr (tickerA @ ''-'' @ tickerB)),
                   (''type'', VStr (toLowerCase type))] w)"

definition getMarketHistory ::
  "RestClient \<Rightarrow> string \<Rightarrow> string \<Rightarrow> world \<Rightarrow> (failure + jsval) \<times> world" where
  "getMarketHistory self tickerA tickerB w =
     result_of (http_with_params self ''/public/getmarkethistory''
                  [(''market'', VStr (tickerA @ ''-'' @ tickerB))] w)"

definition getBalances :: "RestClient \<Rightarrow> world \<Rightarrow> (failure + jsval) \<times> world" where
  "getBalances self w = result_of (http self ''/account/getbalances'' None w)"

definition getBalance :: "RestClient \<Rightarrow> string \<Rightarrow> world \<Rightarrow> (failure + jsval) \<times> world" where
  "getBalance self currency w =
     result_of (http_with_params self ''/account/getbalance'' [(''currency'', VStr currency)] w)"

definition getOrderHistory ::
  "RestClient \<Rightarrow> string option \<Rightarrow> string option \<Rightarrow> world \<Rightarrow> (failure + jsval) \<times> world" where
  "getOrderHistory self tickerA tickerB w =
     (if truthy (opt_val tickerA) \<and> truthy (opt_val tickerB)
      then result_of (http_with_params self ''/account/getorderhistory''
                        [(''market'',
                          VStr (opt_text tickerA @ ''-'' @ opt_text tickerB))] w)
      else result_of (http self ''/account/getorderhistory'' None w))"

definition getDepositHistory ::
  "RestClient \<Rightarrow> string option \<Rightarrow> world \<Rightarrow> (failure + jsval) \<times> world" where
  "getDepositHistory self currency w =
     result_of (http_with_params self ''/account/getdeposithistory''
                  [(''currency'', opt_val currency)] w)"

definition getDepositAddress ::
  "RestClient \<Rightarrow> string \<Rightarrow> world \<Rightarrow> (failure + jsval) \<times> world" where
  "getDepositAddress self currency w =
     result_of (http_with_params self ''/account/getdepositaddress''
                  [(''currency'', VStr currency)] w)"

definition getOrder :: "RestClient \<Rightarrow> string \<Rightarrow> world \<Rightarrow> (failure + jsval) \<times> world" where
  "getOrder self uuid w =
     result_of (http_with_params self ''/account/getorder'' [(''uuid'', VStr uuid)] w)"

text \<open>\<^verbatim>\<open>withdraw\<close> passes the caller's own parameter object on: \<^verbatim>\<open>{ params }\<close>.\<close>

definition withdraw :: "RestClient \<Rightarrow> addr \<Rightarrow> world \<Rightarrow> (failure + jsval) \<times> world" where
  "withdraw self params w =
     (let (opts, w1) = alloc [(''params'', VRef params)] w
      in result_of (http self ''/account/withdraw'' (Some opts) w1))"

definition getWithdrawlHistory ::
  "RestClient \<Rightarrow> string option \<Rightarrow> world \<Rightarrow> (failure + jsval) \<times> world" where
  "getWithdrawlHistory self currency w =
     result_of (http_with_params self ''/account/getwithdrawalhistory''
                  [(''currency'', opt_val currency)] w)"

definition buyLimit ::
  "RestClient \<Rightarrow> string \<Rightarrow> string \<Rightarrow> string \<Rightarrow> string \<Rightarrow> world \<Rightarrow> (failure + jsval) \<times> world" where
  "buyLimit self tickerA tickerB quantity rate w =
     (let market = tickerA @ ''-'' @ tickerB
      in result_of (http_with_params self ''/market/buylimit''
                      [(''market'', VStr market), (''quantity'', VStr quantity),
                       (''rate'', VStr rate)] w))"

definition sellLimit ::
  "RestClient \<Rightarrow> string \<Rightarrow> string \<Rightarrow> string \<Rightarrow> string \<Rightarrow> world \<Rightarrow> (failure + jsval) \<times> world" where
  "sellLimit self tickerA tickerB quantity rate w =
     (let market = tickerA @ ''-'' @ tickerB
      in result_of (http_with_params self ''/market/selllimit''
                      [(''market'', VStr market), (''quantity'', VStr quantity),
                       (''rate'', VStr rate)] w))"

text \<open>\<^verbatim>\<open>cancelOrder\<close> awaits the call and returns nothing.\<close>

definition cancelOrder :: "RestClient \<Rightarrow> string \<Rightarrow> world \<Rightarrow> (failure + jsval) \<times> world" where
  "cancelOrder self uuid w =
     (case http_with_params self ''/market/cancel'' [(''uuid'', VStr uuid)] w of
        (Inl e, w') \<Rightarrow> (Inl e, w')
      | (Inr ret, w') \<Rightarrow> (Inr VUndefined, w'))"

definition getOpenOrders ::
  "RestClient \<Rightarrow> string option \<Rightarrow> string option \<Rightarrow> world \<Rightarrow> (failure + jsval) \<times> world" where
  "getOpenOrders self tickerA tickerB w =
     (let market = opt_text tickerA @ ''-'' @ opt_text tickerB
      in if truthy (opt_val tickerA) \<and> truthy (opt_val tickerB)
         then result_of (http_with_params self ''/market/getopenorders''
                           [(''market'',
                             VStr (opt_text tickerA @ ''-''
                                   @ opt_text tickerB))] w)
         else result_of (http self ''/market/getopenorders'' None w))"

text \<open>The transport's answer to the request issued last, for stating what a call
  received.\<close>

definition last_response :: "RestClient \<Rightarrow> world \<Rightarrow> js_error + AxiosResponse" where
  "last_response self w = network w (axios self) (last (sent w))"

subsection \<open>Views of a call, for stating its properties\<close>

text \<open>
  The options object a call works on (\<open>options_of\<close>), the value of
  \<^verbatim>\<open>options.params || {}\<close> (\<open>params_target\<close>), the mapping that is serialized
  (\<open>merged_params\<close>), the query string and the full URL, and the options object as the
  call leaves it (\<open>final_options\<close>). Each is shown below to be what \<open>http_request\<close>
  computes.
\<close>

definition options_of :: "addr option \<Rightarrow> world \<Rightarrow> obj" where
  "options_of optarg w = (case optarg of Some a \<Rightarrow> deref w a | None \<Rightarrow> [])"

definition params_target :: "addr option \<Rightarrow> world \<Rightarrow> jsval" where
  "params_target optarg w =
     (let p = get_prop (options_of optarg w) ''params'' in if truthy p then p else VObj [])"

definition merged_params :: "RestClient \<Rightarrow> addr option \<Rightarrow> world \<Rightarrow> obj" where
  "merged_params self optarg w =
     Object_assign (own_entries w (params_target optarg w))
       [(''apikey'', VStr (apikey (options self))), (''nonce'', VStr (fst (getNonce w)))]"

definition querystring_of :: "RestClient \<Rightarrow> addr option \<Rightarrow> world \<Rightarrow> string" where
  "querystring_of self optarg w =
     (if callable (params_target optarg w) then [] else stringify (merged_params self optarg w))"

definition version_of :: "RestClient \<Rightarrow> string" where
  "version_of self =
     (case apiVersion (options self) of
        Some v \<Rightarrow> if v \<noteq> [] then v else ''v1.1''
      | None \<Rightarrow> ''v1.1'')"

definition fullUrl_of :: "RestClient \<Rightarrow> string \<Rightarrow> addr option \<Rightarrow> world \<Rightarrow> string" where
  "fullUrl_of self path optarg w =
     url_join [''https://bittrex.com/api/'', version_of self, path,
               ''?'' @ querystring_of self optarg w]"

definition final_options :: "RestClient \<Rightarrow> addr option \<Rightarrow> world \<Rightarrow> obj" where
  "final_options self optarg w =
     delete_prop ''params''
       (if optarg \<noteq> None \<and> params_target optarg w = VRef (the optarg)
        then merged_params self optarg w else options_of optarg w)"

definition default_request :: "RestClient \<Rightarrow> string \<Rightarrow> obj" where
  "default_request self fullUrl =
     [(''url'', VStr fullUrl),
      (''headers'', VObj [(''apisign'', VStr (getHmac fullUrl (apisecret (options self))))]),
      (''validateStatus'', VFn ConstTrue)]"

definition request_of :: "RestClient \<Rightarrow> string \<Rightarrow> addr option \<Rightarrow> world \<Rightarrow> obj" where
  "request_of self path optarg w =
     Object_assign (default_request self (fullUrl_of self path optarg w))
       (final_options self optarg w)"

text \<open>The value of \<^verbatim>\<open>v.k\<close> where reading it does not throw.\<close>

definition property :: "world \<Rightarrow> jsval \<Rightarrow> string \<Rightarrow> jsval" where
  "property w v k = (case GetV w v k of Inr x \<Rightarrow> x | Inl e \<Rightarrow> VUndefined)"

text \<open>The world after the two object literals of \<^verbatim>\<open>this.http(path, { params: {...} })\<close>
  are created, and what it means that a call received a successful envelope.\<close>

definition after_literals :: "obj \<Rightarrow> world \<Rightarrow> world" where
  "after_literals ps w =
     w\<lparr>heap := (heap w)(next_addr w \<mapsto> ps,
                        Suc (next_addr w) \<mapsto> [(''params'', VRef (next_addr w))]),
       next_addr := Suc (Suc (next_addr w))\<rparr>"

definition issued_one_request :: "world \<Rightarrow> world \<Rightarrow> bool" where
  "issued_one_request w w' =
     (sent w' \<noteq> [] \<and> butlast (sent w') = sent w \<and> network w' = network w)"

definition received_envelope :: "RestClient \<Rightarrow> world \<Rightarrow> obj \<Rightarrow> bool" where
  "received_envelope self w body =
     (case last_response self w of
        Inl e \<Rightarrow> False
      | Inr ret \<Rightarrow>
          status ret = 200 \<and> data ret = VObj body \<and> truthy (get_prop body ''success''))"

text \<open>The endpoint methods of the client with their arguments, and the call of one of
  them, for stating what all of them have in common.\<close>

datatype endpoint =
    GetMarkets
  | GetCurrencies
  | GetTicker string string
  | GetMarketSummaries
  | GetMarketSummary string string
  | GetOrderBook string string OrderBookType
  | GetMarketHistory string string
  | GetBalances
  | GetBalance string
  | GetOrderHistory "string option" "string option"
  | GetDepositHistory "string option"
  | GetDepositAddress string
  | GetOrder string
  | Withdraw addr
  | GetWithdrawlHistory "string option"
  | BuyLimit string string string string
  | SellLimit string string string string
  | CancelOrder string
  | GetOpenOrders "string option" "string option"

fun invoke :: "RestClient \<Rightarrow> endpoint \<Rightarrow> world \<Rightarrow> (failure + jsval) \<times> world" where
  "invoke self GetMarkets w = getMarkets self w"
| "invoke self GetCurrencies w = getCurrencies self w"
| "invoke self (GetTicker a b) w = getTicker self a b w"
| "invoke self GetMarketSummaries w = getMarketSummaries self w"
| "invoke self (GetMarketSummary a b) w = getMarketSummary self a b w"
| "invoke self (GetOrderBook a b t) w = getOrderBook self a b t w"
| "invoke self (GetMarketHistory a b) w = getMarketHistory self a b w"
| "invoke self GetBalances w = getBalances self w"
| "invoke self (GetBalance c) w = getBalance self c w"
| "invoke self (GetOrderHistory a b) w = getOrderHistory self a b w"
| "invoke self (GetDepositHistory c) w = getDepositHistory self c w"
| "invoke self (GetDepositAddress c) w = getDepositAddress self c w"
| "invoke self (GetOrder u) w = getOrder self u w"
| "invoke self (Withdraw p) w = withdraw self p w"
| "invoke self (GetWithdrawlHistory c) w = getWithdrawlHistory self c w"
| "invoke self (BuyLimit a b q r) w = buyLimit self a b q r w"
| "invoke self (SellLimit a b q r) w = sellLimit self a b q r w"
| "invoke self (CancelOrder u) w = cancelOrder self u w"
| "invoke self (GetOpenOrders a b) w = getOpenOrders self a b w"

subsection \<open>Example inputs\<close>

text \<open>The client of the test suite, a world with nothing allocated whose random source
  hands out the bytes 0, 1, 2, ..., and some answers of the exchange.\<close>

definition example_options :: BittrexApiOptions where
  "example_options =
     \<lparr>apikey = ''an-api-key-should-go-here'', apisecret = ''an-api-secret-should-go-here'',
      axiosOptions = None, apiVersion = None\<rparr>"

definition example_client :: RestClient where
  "example_client = \<lparr>options = example_options, axios = initial_AXIOS_DEFAULTS\<rparr>"

definition example_world :: "(obj \<Rightarrow> obj \<Rightarrow> js_error + AxiosResponse) \<Rightarrow> world" where
  "example_world net =
     \<lparr>heap = Map.empty, next_addr = 0, AXIOS_DEFAULTS = initial_AXIOS_DEFAULTS,
      entropy = (\<lambda>i. of_nat i), drawn = 0, network = net, sent = []\<rparr>"

definition answer :: "AxiosResponse \<Rightarrow> obj \<Rightarrow> obj \<Rightarrow> js_error + AxiosResponse" where
  "answer r config request = Inr r"

definition not_found :: AxiosResponse where
  "not_found = \<lparr>status = 404, statusText = None, data = VObj []\<rparr>"

definition went_wrong :: AxiosResponse where
  "went_wrong =
     \<lparr>status = 200, statusText = Some ''OK'',
      data = VObj [(''success'', VBool False), (''message'', VStr ''something went wrong'')]\<rparr>"

definition null_body :: AxiosResponse where
  "null_body = \<lparr>status = 200, statusText = Some ''OK'', data = VNull\<rparr>"

definition one_summary :: AxiosResponse where
  "one_summary =
     \<lparr>status = 200, statusText = Some ''OK'',
      data = VObj [(''success'', VBool True), (''message'', VStr []),
                   (''result'', VArr [VObj [(''MarketName'', VStr ''BTC-LTC'')]])]\<rparr>"

definition with_timeout_100 :: BittrexApiOptions where
  "with_timeout_100 = example_options\<lparr>axiosOptions := Some [(''timeout'', VNum (SafeInt 100))]\<rparr>"

text \<open>A world in which the caller holds a parameter mapping at address 2 and an options
  object referring to it at address 3 (the call \<^verbatim>\<open>http(path, { params })\<close>), and one in
  which the caller's options object at address 0 sets \<^verbatim>\<open>headers\<close> to \<^verbatim>\<open>{}\<close>.\<close>

definition caller_params_world :: world where
  "caller_params_world =
     (example_world (answer one_summary))
       \<lparr>heap := [2 \<mapsto> [(''currency'', VStr ''btc'')], 3 \<mapsto> [(''params'', VRef 2)]],
        next_addr := 4\<rparr>"

definition caller_headers_world :: world where
  "caller_headers_world =
     (example_world (answer one_summary))
       \<lparr>heap := [0 \<mapsto> [(''headers'', VObj [])]], next_addr := 1\<rparr>"

section \<open>Properties\<close>

subsection \<open>The nonce\<close>

lemma length_base64: "length (base64 bs) = 4 * ((length bs + 2) div 3)"
  by (induction bs rule: base64.induct) (simp_all, presburger)

lemma of_char_b64digit:
  "n < 64 \<Longrightarrow> (of_char (b64digit n) :: nat) =
     (if n < 26 then 65 + n else if n < 52 then 71 + n else if n < 62 then n - 4
      else if n = 62 then 43 else 47)"
  by (simp add: b64digit_def)

lemma b64value_digit:
  assumes "n < 64"
  shows "b64value (b64digit n) = n"
proof -
  consider "n < 26" | "26 \<le> n" "n < 52" | "52 \<le> n" "n < 62" | "n = 62" | "n = 63"
    using assms by linarith
  then show ?thesis
  proof cases
    case 1
    then show ?thesis by (simp add: b64value_def b64digit_def Let_def)
  next
    case 2
    then show ?thesis by (simp add: b64value_def b64digit_def Let_def)
  next
    case 3
    then have "b64digit n = char_of (n - 4)" "48 \<le> n - 4" "n - 4 \<le> 57"
      by (simp_all add: b64digit_def)
    then show ?thesis
      using 3 by (simp add: b64value_def Let_def)
  next
    case 4
    then show ?thesis by (simp add: b64value_def b64digit_def Let_def)
  next
    case 5
    then show ?thesis by (simp add: b64value_def b64digit_def Let_def)
  qed
qed

lemma b64digit_not_pad:
  assumes "n < 64"
  shows "b64digit n \<noteq> CHR ''=''"
proof
  assume "b64digit n = CHR ''=''"
  then have "(of_char (b64digit n) :: nat) = 61"
    by simp
  then have "(if n < 26 then 65 + n else if n < 52 then 71 + n else if n < 62 then n - 4
              else if n = 62 then 43 else 47) = (61 :: nat)"
    using assms by (simp only: of_char_b64digit)
  then show False
    using assms by (simp split: if_splits)
qed

lemma byte_limit: "unat (a :: byte) < 256"
  using unsigned_less [of a] by simp

lemma quot16: "(b::nat) < 16 \<Longrightarrow> (a * 16 + b) div 16 = a"
  by simp

lemma rem16: "(b::nat) < 16 \<Longrightarrow> (a * 16 + b) mod 16 = b"
  by simp

lemma quot4: "(b::nat) < 4 \<Longrightarrow> (a * 4 + b) div 4 = a"
  by simp

lemma rem4: "(b::nat) < 4 \<Longrightarrow> (a * 4 + b) mod 4 = b"
  by simp

lemma div16_limit: "(y::nat) < 256 \<Longrightarrow> y div 16 < 16"
  by linarith

lemma div64_limit: "(y::nat) < 256 \<Longrightarrow> y div 64 < 4"
  by linarith

lemma sextet_limit:
  "(x::nat) < 256 \<Longrightarrow> x div 4 < 64"
  "(x::nat) < 256 \<Longrightarrow> y < 256 \<Longrightarrow> x mod 4 * 16 + y div 16 < 64"
  "(y::nat) < 256 \<Longrightarrow> z < 256 \<Longrightarrow> y mod 16 * 4 + z div 64 < 64"
  "(z::nat) mod 64 < 64"
  "(x::nat) mod 4 * 16 < 64"
  "(y::nat) mod 16 * 4 < 64"
  by linarith+

lemma sextet_bounds:
  fixes a b c :: byte
  shows "unat a div 4 < 64" "unat a mod 4 * 16 + unat b div 16 < 64"
    "unat b mod 16 * 4 + unat c div 64 < 64" "unat c mod 64 < 64"
    "unat a mod 4 * 16 < 64" "unat b mod 16 * 4 < 64"
  by (rule sextet_limit byte_limit)+

lemma octet_rebuild:
  "(y::nat) < 256 \<Longrightarrow> x div 4 * 4 + (x mod 4 * 16 + y div 16) div 16 = x"
  "(y::nat) < 256 \<Longrightarrow> z < 256 \<Longrightarrow>
     (x mod 4 * 16 + y div 16) mod 16 * 16 + (y mod 16 * 4 + z div 64) div 4 = y"
  "(z::nat) < 256 \<Longrightarrow> (y mod 16 * 4 + z div 64) mod 4 * 64 + z mod 64 = z"
  "(x::nat) div 4 * 4 + (x mod 4 * 16) div 16 = x"
  "(y::nat) < 256 \<Longrightarrow> (x mod 4 * 16 + y div 16) mod 16 * 16 + (y mod 16 * 4) div 4 = y"
  by (simp_all add: quot16 rem16 quot4 rem4 div16_limit div64_limit)

lemma byte_rebuild:
  fixes a b c :: byte
  shows "(of_nat (unat a div 4 * 4 + (unat a mod 4 * 16 + unat b div 16) div 16) :: byte) = a"
    "(of_nat ((unat a mod 4 * 16 + unat b div 16) mod 16 * 16 + (unat b mod 16 * 4 + unat c div 64) div 4) :: byte) = b"
    "(of_nat ((unat b mod 16 * 4 + unat c div 64) mod 4 * 64 + unat c mod 64) :: byte) = c"
    "(of_nat (unat a div 4 * 4 + (unat a mod 4 * 16) div 16) :: byte) = a"
    "(of_nat ((unat a mod 4 * 16 + unat b div 16) mod 16 * 16 + (unat b mod 16 * 4) div 4) :: byte) = b"
  by (simp_all only: octet_rebuild byte_limit) simp_all

lemma unbase64_base64: "unbase64 (base64 bs) = bs"
proof (induction bs rule: base64.induct)
  case 1
  show ?case by simp
next
  case (2 a)
  show ?case
    by (simp only: base64.simps unbase64.simps Let_def b64value_digit sextet_bounds
          b64digit_not_pad byte_rebuild if_True if_False simp_thms)
next
  case (3 a b)
  show ?case
    by (simp only: base64.simps unbase64.simps Let_def b64value_digit sextet_bounds
          b64digit_not_pad byte_rebuild if_True if_False simp_thms)
next
  case (4 a b c rest)
  then show ?case
    by (simp only: base64.simps unbase64.simps Let_def b64value_digit sextet_bounds
          b64digit_not_pad byte_rebuild if_True if_False simp_thms append.simps)
qed

lemma card_bytes16: "card {bs :: byte list. length bs = 16} = 2 ^ 128"
proof -
  have "card {bs :: byte list. set bs \<subseteq> UNIV \<and> length bs = 16} = card (UNIV :: byte set) ^ 16"
    by (rule card_lists_length_eq) simp
  then show ?thesis by (simp add: card_word)
qed

lemma inj_base64: "inj base64"
  by (rule inj_on_inverseI [where g = unbase64]) (rule unbase64_base64)

lemma card_nonces: "card (base64 ` {bs. length bs = 16}) = 2 ^ 128"
  using card_image [OF inj_on_subset [OF inj_base64 subset_UNIV], of "{bs. length bs = 16}"]
  by (simp add: card_bytes16)

text \<open>
  Claim C4. The nonce of a call is the base64 text of the next 16 bytes of the random
  source, so it is 24 characters long; the call uses these bytes up, and the call after
  it reads the 16 bytes that follow. The text can be decoded, so two nonces are equal
  only when the bytes drawn are equal, and the 16-byte draws give \<open>2 ^ 128\<close> different
  nonces.
\<close>

theorem getNonce_base64_of_16_fresh_bytes:
  "fst (getNonce w) = base64 (map (entropy w) [drawn w..<drawn w + 16])
   \<and> length (fst (getNonce w)) = 24
   \<and> snd (getNonce w) = w\<lparr>drawn := drawn w + 16\<rparr>
   \<and> fst (getNonce (snd (getNonce w))) = base64 (map (entropy w) [drawn w + 16..<drawn w + 32])
   \<and> unbase64 (base64 bs) = bs
   \<and> card (base64 ` {bs. length bs = 16}) = 2 ^ 128"
proof -
  have first: "getNonce w = (base64 (map (entropy w) [drawn w..<drawn w + 16]),
                             w\<lparr>drawn := drawn w + 16\<rparr>)" for w
    by (simp add: getNonce_def randomBytes_def)
  have e: "drawn w + 16 + 16 = drawn w + 32"
    by simp
  have "fst (getNonce (snd (getNonce w)))
        = base64 (map (entropy w) [drawn w + 16..<drawn w + 16 + 16])"
    by (simp add: first)
  then have second: "fst (getNonce (snd (getNonce w)))
                     = base64 (map (entropy w) [drawn w + 16..<drawn w + 32])"
    unfolding e .
  have c1: "fst (getNonce w) = base64 (map (entropy w) [drawn w..<drawn w + 16])"
    by (simp add: first)
  have c2: "length (fst (getNonce w)) = 24"
    by (simp add: first length_base64)
  have c3: "snd (getNonce w) = w\<lparr>drawn := drawn w + 16\<rparr>"
    by (simp add: first)
  show ?thesis
    by (intro conjI c1 c2 c3 second unbase64_base64 card_nonces)
qed

subsection \<open>Objects\<close>

lemma set_own_keys_order: "set (own_keys_order ob) = set ob"
  by (auto simp: own_keys_order_def)

lemma own_keys_order_plain:
  assumes "\<forall>k\<in>fst ` set ob. \<not> is_array_index k"
  shows "own_keys_order ob = ob"
proof -
  from assms have "filter (\<lambda>(k, v). is_array_index k) ob = []"
    by (auto simp: filter_empty_conv)
  moreover from assms have "filter (\<lambda>(k, v). \<not> is_array_index k) ob = ob"
    by (auto simp: filter_id_conv)
  ultimately show ?thesis
    by (simp add: own_keys_order_def)
qed

lemma letter_not_index: "k \<noteq> [] \<Longrightarrow> \<not> is_digit (hd k) \<Longrightarrow> \<not> is_array_index k"
  by (cases k) (simp_all add: is_array_index_def parse_index_def)

lemma literal_keys_not_index:
  "\<not> is_array_index ''apikey''" "\<not> is_array_index ''nonce''" "\<not> is_array_index ''timeout''"
  "\<not> is_array_index ''headers''" "\<not> is_array_index ''params''" "\<not> is_array_index ''url''"
  "\<not> is_array_index ''currency''" "\<not> is_array_index ''validateStatus''"
  by (rule letter_not_index; simp add: is_digit_def)+

lemma Object_assign_Nil: "Object_assign t [] = t"
  by (simp add: Object_assign_def own_keys_order_def)

lemma Object_assign_plain:
  "\<forall>k\<in>fst ` set s. \<not> is_array_index k
   \<Longrightarrow> Object_assign t s = foldl (\<lambda>t (k, v). set_prop k v t) t s"
  by (simp add: Object_assign_def own_keys_order_plain)

lemma Object_assign_injected:
  "Object_assign t [(''apikey'', x), (''nonce'', y)] = set_prop ''nonce'' y (set_prop ''apikey'' x t)"
  by (subst Object_assign_plain) (simp_all add: literal_keys_not_index)

lemma map_of_set_prop: "map_of (set_prop k v t) = (map_of t)(k \<mapsto> v)"
  by (simp add: set_prop_def update_conv')

lemma map_of_set_all_other:
  "k \<notin> fst ` set s \<Longrightarrow> map_of (foldl (\<lambda>t (k, v). set_prop k v t) t s) k = map_of t k"
proof (induction s arbitrary: t)
  case Nil
  show ?case by simp
next
  case (Cons e s)
  obtain k' v' where e: "e = (k', v')" by (cases e)
  with Cons.prems have "k \<noteq> k'" "k \<notin> fst ` set s" by auto
  then show ?case
    by (simp add: e Cons.IH map_of_set_prop)
qed

lemma map_of_Object_assign_other:
  "k \<notin> fst ` set s \<Longrightarrow> map_of (Object_assign t s) k = map_of t k"
  unfolding Object_assign_def by (rule map_of_set_all_other) (simp add: set_own_keys_order)


lemma keys_set_prop: "fst ` set (set_prop k v t) = insert k (fst ` set t)"
  by (simp add: set_prop_def dom_update)

lemma keys_set_all:
  "fst ` set (foldl (\<lambda>t (k, v). set_prop k v t) t s) = fst ` set t \<union> fst ` set s"
proof (induction s arbitrary: t)
  case Nil
  show ?case by simp
next
  case (Cons e s)
  obtain k' v' where e: "e = (k', v')" by (cases e)
  show ?case
    by (simp add: e Cons.IH keys_set_prop)
qed

lemma keys_Object_assign: "fst ` set (Object_assign t s) = fst ` set t \<union> fst ` set s"
  by (simp add: Object_assign_def keys_set_all set_own_keys_order)



lemma get_prop_absent: "\<not> has_prop ob k \<Longrightarrow> get_prop ob k = VUndefined"
  by (simp add: has_prop_def get_prop_def)

lemma map_of_delete_prop: "map_of (delete_prop k ob) = (map_of ob)(k := None)"
  by (simp add: delete_prop_def delete_conv')

subsection \<open>Query strings\<close>

lemma split_on_nonempty: "split_on c s \<noteq> []"
  by (induction s) (auto split: list.splits)


















subsection \<open>What a call computes\<close>

lemma getNonce_eq:
  "getNonce w = (base64 (map (entropy w) [drawn w..<drawn w + 16]), w\<lparr>drawn := drawn w + 16\<rparr>)"
  by (simp add: getNonce_def randomBytes_def)

lemma own_entries_heap: "heap w' = heap w \<Longrightarrow> own_entries w' v = own_entries w v"
  by (cases v) (simp_all add: deref_def)

lemma http_request_None_snd:
  "snd (http_request self path None w) =
      w\<lparr>heap := (heap w)(next_addr w \<mapsto> []), next_addr := Suc (next_addr w),
        drawn := drawn w + 16\<rparr>"
  by (simp add: http_request_def alloc_def deref_def get_prop_def getNonce_eq store_def
      delete_prop_def Object_assign_Nil split_def Let_def)

lemma http_request_None_fst:
  "fst (http_request self path None w) =
     (querystring_of self None w, fullUrl_of self path None w,
       default_request self (fullUrl_of self path None w))"
  by (simp add: http_request_def alloc_def deref_def get_prop_def getNonce_eq store_def
      delete_prop_def Object_assign_Nil querystring_of_def fullUrl_of_def version_of_def
      params_target_def options_of_def merged_params_def default_request_def split_def Let_def)

lemma own_entries_drawn [simp]: "own_entries (w\<lparr>drawn := d\<rparr>) v = own_entries w v"
  by (rule own_entries_heap) simp

lemma options_of_Some: "options_of (Some a) w = deref w a"
  by (simp add: options_of_def)

lemma deref_store: "deref (store b m w) a = (if b = a then m else deref w a)"
  by (simp add: deref_def store_def)

lemma deref_drawn [simp]: "deref (w\<lparr>drawn := d\<rparr>) a = deref w a"
  by (simp add: deref_def)

lemma params_target_Some:
  "(if truthy (get_prop (deref w a) ''params'') then get_prop (deref w a) ''params''
    else VObj []) = params_target (Some a) w"
  by (simp add: params_target_def options_of_def)

lemma deref_store_same: "deref (store a m w) a = m"
  by (simp add: deref_store)

lemma deref_after_assign:
  "deref (case t of VRef b \<Rightarrow> store b m w | _ \<Rightarrow> w) a = (if t = VRef a then m else deref w a)"
  by (cases t) (auto simp: deref_store)

lemma http_request_Some:
  "http_request self path (Some a) w =
     ((querystring_of self (Some a) w, fullUrl_of self path (Some a) w,
       Object_assign (default_request self (fullUrl_of self path (Some a) w))
         (final_options self (Some a) w)),
      store a (final_options self (Some a) w)
        (case params_target (Some a) w of
           VRef b \<Rightarrow> store b (merged_params self (Some a) w) (w\<lparr>drawn := drawn w + 16\<rparr>)
         | _ \<Rightarrow> w\<lparr>drawn := drawn w + 16\<rparr>))"
proof -
  have step: "http_request self path (Some a) w =
     (let t = params_target (Some a) w;
          merged = Object_assign (own_entries w t)
                     [(''apikey'', VStr (apikey (options self))),
                      (''nonce'', VStr (fst (getNonce w)))];
          w3 = (case t of VRef b \<Rightarrow> store b merged (w\<lparr>drawn := drawn w + 16\<rparr>)
                | _ \<Rightarrow> w\<lparr>drawn := drawn w + 16\<rparr>);
          q = (if callable t then [] else stringify merged);
          w4 = store a (delete_prop ''params'' (deref w3 a)) w3;
          u = url_join [''https://bittrex.com/api/'', version_of self, path, ''?'' @ q]
      in ((q, u, Object_assign (default_request self u) (deref w4 a)), w4))"
    by (simp only: http_request_def version_of_def default_request_def Let_def option.case
        prod.case getNonce_eq params_target_Some own_entries_drawn fst_conv)
  have fin: "delete_prop ''params''
               (deref (case params_target (Some a) w of
                         VRef b \<Rightarrow> store b (merged_params self (Some a) w)
                                    (w\<lparr>drawn := drawn w + 16\<rparr>)
                       | _ \<Rightarrow> w\<lparr>drawn := drawn w + 16\<rparr>) a)
             = final_options self (Some a) w"
    by (simp add: deref_after_assign final_options_def options_of_Some)
  show ?thesis
    unfolding step Let_def
    by (simp only: merged_params_def [symmetric] querystring_of_def [symmetric]
        fullUrl_of_def [symmetric] fin deref_store_same)
qed

lemma final_options_None: "final_options self None w = []"
  by (simp add: final_options_def options_of_def delete_prop_def)

lemma http_request_fst:
  "fst (http_request self path optarg w) =
     (querystring_of self optarg w, fullUrl_of self path optarg w, request_of self path optarg w)"
  by (cases optarg)
     (simp_all add: http_request_None_fst http_request_Some request_of_def final_options_None
        Object_assign_Nil)

lemma store_frame [simp]:
  "network (store a ob w) = network w" "sent (store a ob w) = sent w"
  "AXIOS_DEFAULTS (store a ob w) = AXIOS_DEFAULTS w" "entropy (store a ob w) = entropy w"
  "drawn (store a ob w) = drawn w" "next_addr (store a ob w) = next_addr w"
  by (simp_all add: store_def)

lemma http_request_frame:
  "network (snd (http_request self path optarg w)) = network w"
  "sent (snd (http_request self path optarg w)) = sent w"
  "AXIOS_DEFAULTS (snd (http_request self path optarg w)) = AXIOS_DEFAULTS w"
  "entropy (snd (http_request self path optarg w)) = entropy w"
  "drawn (snd (http_request self path optarg w)) = drawn w + 16"
  by (cases optarg; cases "params_target optarg w";
      simp add: http_request_None_snd http_request_Some)+

lemma http_eq:
  "http self path optarg w =
     (http_decide (snd (http self path optarg w))
        (network w (axios self) (request_of self path optarg w)),
      (snd (http_request self path optarg w))
        \<lparr>sent := sent w @ [request_of self path optarg w]\<rparr>)"
  by (simp add: http_def split_def Let_def http_request_fst http_request_frame)

lemma http_frame:
  "network (snd (http self path optarg w)) = network w"
  "sent (snd (http self path optarg w)) = sent w @ [request_of self path optarg w]"
  "AXIOS_DEFAULTS (snd (http self path optarg w)) = AXIOS_DEFAULTS w"
  "entropy (snd (http self path optarg w)) = entropy w"
  "drawn (snd (http self path optarg w)) = drawn w + 16"
  by (simp_all add: http_def split_def Let_def http_request_fst http_request_frame)

lemma last_response_http:
  "last_response self (snd (http self path optarg w))
   = network w (axios self) (request_of self path optarg w)"
  by (simp add: last_response_def http_frame)

lemma http_fst:
  "fst (http self path optarg w)
   = http_decide (snd (http self path optarg w))
       (last_response self (snd (http self path optarg w)))"
  by (simp add: last_response_http) (simp add: http_def split_def Let_def http_request_fst
      http_request_frame)

subsection \<open>The outcome of a call\<close>

lemma GetV_defined:
  "v \<noteq> VNull \<Longrightarrow> v \<noteq> VUndefined \<Longrightarrow> GetV w v k = Inr (property w v k)"
  by (cases v) (simp_all add: property_def)

lemma show_nat_404: "show_nat 404 = ''404''"
  by code_simp

lemma http_decide_cases:
  "http_decide w' outcome =
     (case outcome of
        Inl e \<Rightarrow>
          Inl (BittrexHttpError ''HTTPError'' (Error_toString (err_name e) (err_message e))
                 (case err_stack e of Some s \<Rightarrow> if s \<noteq> [] then Some s else None
                  | None \<Rightarrow> None)
                 VUndefined VUndefined)
      | Inr ret \<Rightarrow>
          if status ret \<noteq> 200 then
            Inl (BittrexHttpError ''HTTPError''
                   (''received http '' @ show_nat (unat (status ret))
                    @ '' from bittrex with message '' @ [CHR 0x22]
                    @ status_text_string (statusText ret) @ [CHR 0x22])
                   None (status_text (statusText ret)) (VNum (SafeInt (ucast (status ret)))))
          else if data ret = VNull \<or> data ret = VUndefined then
            Inl (TypeError (''Cannot read property '' @ [CHR 0x27] @ ''success'' @ [CHR 0x27]
                            @ '' of '' @ (if data ret = VNull then ''null'' else ''undefined'')))
          else if truthy (property w' (data ret) ''success'') then Inr ret
          else
            (case ToString (property w' (data ret) ''message'') of
               None \<Rightarrow> Inl (TypeError ''Cannot convert object to primitive value'')
             | Some text \<Rightarrow>
                 Inl (BittrexRestApiError ''BittrexRestApiError''
                        (''bittrex returned '' @ [CHR 0x22] @ text @ [CHR 0x22] @ '' error'')
                        (property w' (data ret) ''message''))))"
proof (cases outcome)
  case (Inl e)
  then show ?thesis
    by (simp add: http_decide_def)
next
  case (Inr ret)
  show ?thesis
  proof (cases "status ret = 200")
    case False
    with Inr show ?thesis
      by (simp add: http_decide_def)
  next
    case True
    show ?thesis
    proof (cases "data ret = VNull \<or> data ret = VUndefined")
      case True
      with Inr \<open>status ret = 200\<close> show ?thesis
        by (auto simp: http_decide_def)
    next
      case False
      then have "GetV w' (data ret) k = Inr (property w' (data ret) k)" for k
        by (simp add: GetV_defined)
      with Inr \<open>status ret = 200\<close> False show ?thesis
        by (simp add: http_decide_def new_BittrexRestApiError_def split: option.splits)
    qed
  qed
qed

text \<open>
  Claim C1 fails as stated: a 200 response whose body is \<^verbatim>\<open>null\<close> ends the call with the
  engine's \<^verbatim>\<open>TypeError\<close> for reading \<^verbatim>\<open>success\<close>, which is none of the four outcomes.
\<close>

theorem http_null_body_throws_TypeError:
  "fst (http example_client ''/valid/endpoint'' None (example_world (answer null_body)))
   = Inl (TypeError (''Cannot read property '' @ [CHR 0x27] @ ''success'' @ [CHR 0x27]
                     @ '' of null''))"
  by (simp add: http_fst last_response_http example_world_def answer_def null_body_def
      http_decide_def)

text \<open>
  Claim C1, amended. A call hands exactly one request to the transport, and its outcome
  is decided by the transport's answer to that request: the transport failed, and the
  call fails with a \<open>BittrexHttpError\<close> that wraps the transport's error (its text, and
  its trace when it has one); the status is not 200, and the call fails with a
  \<open>BittrexHttpError\<close> carrying status text and status code; the status is 200 and the
  body is \<^verbatim>\<open>null\<close> or \<^verbatim>\<open>undefined\<close>, and the call fails with the engine's
  \<^verbatim>\<open>TypeError\<close>; the body's \<^verbatim>\<open>success\<close> is not truthy, and the call fails with a
  \<open>BittrexRestApiError\<close> carrying the body's \<^verbatim>\<open>message\<close> (with the engine's
  \<^verbatim>\<open>TypeError\<close> when the message is an object that cannot be converted to a string);
  otherwise the call returns the transport's response itself.
\<close>

theorem http_outcome_is_decided_by_the_answer:
  "sent (snd (http self path optarg w)) = sent w @ [request_of self path optarg w]
   \<and> snd (snd (fst (http_request self path optarg w))) = request_of self path optarg w
   \<and> fst (http self path optarg w) =
     (case network w (axios self) (request_of self path optarg w) of
        Inl e \<Rightarrow>
          Inl (BittrexHttpError ''HTTPError'' (Error_toString (err_name e) (err_message e))
                 (case err_stack e of Some s \<Rightarrow> if s \<noteq> [] then Some s else None
                  | None \<Rightarrow> None)
                 VUndefined VUndefined)
      | Inr ret \<Rightarrow>
          if status ret \<noteq> 200 then
            Inl (BittrexHttpError ''HTTPError''
                   (''received http '' @ show_nat (unat (status ret))
                    @ '' from bittrex with message '' @ [CHR 0x22]
                    @ status_text_string (statusText ret) @ [CHR 0x22])
                   None (status_text (statusText ret)) (VNum (SafeInt (ucast (status ret)))))
          else if data ret = VNull \<or> data ret = VUndefined then
            Inl (TypeError (''Cannot read property '' @ [CHR 0x27] @ ''success'' @ [CHR 0x27]
                            @ '' of '' @ (if data ret = VNull then ''null'' else ''undefined'')))
          else if truthy (property (snd (http self path optarg w)) (data ret) ''success'')
          then Inr ret
          else
            (case ToString (property (snd (http self path optarg w)) (data ret) ''message'') of
               None \<Rightarrow> Inl (TypeError ''Cannot convert object to primitive value'')
             | Some text \<Rightarrow>
                 Inl (BittrexRestApiError ''BittrexRestApiError''
                        (''bittrex returned '' @ [CHR 0x22] @ text @ [CHR 0x22] @ '' error'')
                        (property (snd (http self path optarg w)) (data ret) ''message''))))"
proof -
  have "fst (http self path optarg w)
        = http_decide (snd (http self path optarg w))
            (network w (axios self) (request_of self path optarg w))"
    using http_eq [of self path optarg w] by (metis fst_conv)
  then show ?thesis
    by (simp only: http_decide_cases http_frame http_request_fst snd_conv simp_thms)
qed

theorem http_outcome_is_decided_by_the_answer_witness:
  "fst (http example_client ''/valid/endpoint'' None (example_world (answer went_wrong)))
   = Inl (BittrexRestApiError ''BittrexRestApiError''
            (''bittrex returned '' @ [CHR 0x22] @ ''something went wrong'' @ [CHR 0x22]
             @ '' error'')
            (VStr ''something went wrong''))"
  using http_outcome_is_decided_by_the_answer
    [of example_client "''/valid/endpoint''" None "example_world (answer went_wrong)"]
  by (simp add: example_world_def answer_def went_wrong_def property_def get_prop_def)

text \<open>
  Claim C6, at the input of the test suite: the exchange answers 404 with an empty body
  and the status text \<^verbatim>\<open>null\<close>. The error's display string is the name
  \<^verbatim>\<open>HTTPError\<close> and the text \<^verbatim>\<open>received http 404 from bittrex with message "null"\<close>,
  not \<^verbatim>\<open>received status code 404 and text "null"\<close>.
\<close>

theorem http_404_display_string:
  "map_sum toString id
     (fst (http example_client ''/missing/endpoint'' None (example_world (answer not_found))))
   = Inl (''HTTPError: received http 404 from bittrex with message '' @ [CHR 0x22] @ ''null''
          @ [CHR 0x22])"
  by (simp add: http_fst last_response_http example_world_def answer_def not_found_def
      http_decide_def show_nat_404 Error_toString_def status_text_string_def)

subsection \<open>Shared state\<close>

lemma nonce_of_example: "base64 (map of_nat [0..<16]) = ''AAECAwQFBgcICQoLDA0ODw==''"
  by code_simp

text \<open>
  Claim C8, at a failing input: a client is constructed with the override
  \<^verbatim>\<open>{timeout: 100}\<close>, then a second client without overrides. The first construction
  writes the override into the module's \<^verbatim>\<open>AXIOS_DEFAULTS\<close>, and the second client is
  created with timeout 100, not with the default 15000.
\<close>

theorem constructor_writes_overrides_into_shared_defaults:
  "AXIOS_DEFAULTS (example_world (answer one_summary)) = [(''timeout'', VNum (SafeInt 15000))]
   \<and> AXIOS_DEFAULTS (snd (new_RestClient with_timeout_100 (example_world (answer one_summary))))
       = [(''timeout'', VNum (SafeInt 100))]
   \<and> axios (fst (new_RestClient example_options
                   (snd (new_RestClient with_timeout_100
                           (example_world (answer one_summary))))))
       = [(''timeout'', VNum (SafeInt 100))]"
  by (simp add: new_RestClient_def example_world_def with_timeout_100_def example_options_def
      initial_AXIOS_DEFAULTS_def Object_assign_Nil Object_assign_plain literal_keys_not_index
      set_prop_def Let_def)

text \<open>
  Claim C9, at a failing input: the caller passes its own parameter mapping
  \<^verbatim>\<open>{currency: 'btc'}\<close>. After the call the options object is empty, but the caller's
  mapping holds the API key and the nonce of the request.
\<close>

theorem http_leaves_nonce_in_caller_params:
  "deref (snd (http example_client ''/account/withdraw'' (Some 3) caller_params_world)) 2
     = [(''currency'', VStr ''btc''), (''apikey'', VStr ''an-api-key-should-go-here''),
        (''nonce'', VStr ''AAECAwQFBgcICQoLDA0ODw=='')]
   \<and> deref (snd (http example_client ''/account/withdraw'' (Some 3) caller_params_world)) 3 = []"
proof -
  have t: "params_target (Some 3) caller_params_world = VRef 2"
    by (simp add: params_target_def options_of_def deref_def caller_params_world_def
        get_prop_def)
  have n: "fst (getNonce caller_params_world) = ''AAECAwQFBgcICQoLDA0ODw==''"
    by (simp add: getNonce_eq caller_params_world_def example_world_def nonce_of_example)
  have m: "merged_params example_client (Some 3) caller_params_world
           = [(''currency'', VStr ''btc''), (''apikey'', VStr ''an-api-key-should-go-here''),
              (''nonce'', VStr ''AAECAwQFBgcICQoLDA0ODw=='')]"
    by (simp add: merged_params_def t n)
       (simp add: deref_def caller_params_world_def Object_assign_injected set_prop_def
          example_client_def example_options_def)
  have f: "final_options example_client (Some 3) caller_params_world = []"
    by (simp add: final_options_def t options_of_def)
       (simp add: deref_def caller_params_world_def delete_prop_def)
  show ?thesis
    by (simp add: http_def split_def Let_def http_request_Some t m f deref_store)
       (simp add: deref_def store_def)
qed

subsection \<open>The request\<close>

lemma has_prop_keys: "has_prop ob k \<longleftrightarrow> k \<in> fst ` set ob"
  by (simp add: has_prop_def map_of_eq_None_iff)

lemma keys_delete_prop: "fst ` set (delete_prop k ob) \<subseteq> fst ` set ob"
  by (simp add: delete_prop_def dom_delete_subset)

lemma keys_merged_params:
  "fst ` set (merged_params self optarg w)
   = fst ` set (own_entries w (params_target optarg w)) \<union> {''apikey'', ''nonce''}"
  by (simp add: merged_params_def keys_Object_assign)

lemma keys_final_options:
  "fst ` set (final_options self optarg w)
   \<subseteq> fst ` set (options_of optarg w) \<union> {''apikey'', ''nonce''}"
proof (cases "optarg \<noteq> None \<and> params_target optarg w = VRef (the optarg)")
  case True
  then obtain a where a: "optarg = Some a" "params_target optarg w = VRef a"
    by auto
  then have own: "own_entries w (params_target optarg w) = options_of optarg w"
    by (simp add: options_of_def)
  from True have "final_options self optarg w
                  = delete_prop ''params'' (merged_params self optarg w)"
    by (simp add: final_options_def)
  then have "fst ` set (final_options self optarg w)
             \<subseteq> fst ` set (merged_params self optarg w)"
    by (simp add: keys_delete_prop)
  also have "\<dots> = fst ` set (options_of optarg w) \<union> {''apikey'', ''nonce''}"
    by (simp only: keys_merged_params own)
  finally show ?thesis .
next
  case False
  then have "final_options self optarg w = delete_prop ''params'' (options_of optarg w)"
    by (simp only: final_options_def if_False)
  then have "fst ` set (final_options self optarg w) \<subseteq> fst ` set (options_of optarg w)"
    by (simp add: keys_delete_prop)
  then show ?thesis
    by (rule subset_trans) (rule Un_upper1)
qed

lemma request_default_prop:
  assumes "\<not> has_prop (options_of optarg w) k" "k \<noteq> ''apikey''" "k \<noteq> ''nonce''"
  shows "get_prop (request_of self path optarg w) k
         = get_prop (default_request self (fullUrl_of self path optarg w)) k"
proof -
  from assms keys_final_options [of self optarg w]
  have "k \<notin> fst ` set (final_options self optarg w)"
    by (auto simp: has_prop_keys)
  then show ?thesis
    by (simp add: request_of_def get_prop_def map_of_Object_assign_other)
qed

lemma last_sent_http: "last (sent (snd (http self path optarg w))) = request_of self path optarg w"
  by (simp add: http_frame)

subsection \<open>The signature\<close>

lemma hexdigit_lower: "n < 16 \<Longrightarrow> lower_hex_char (hexdigit n)"
  by (simp add: lower_hex_char_def hexdigit_def Let_def)

lemma hex_lower: "list_all lower_hex_char (hex bs)"
proof -
  have "unat b div 16 < 16" "unat b mod 16 < 16" for b :: byte
    using byte_limit [of b] by linarith+
  then show ?thesis
    by (induction bs) (simp_all add: hex_def hexdigit_lower)
qed

lemma length_state_bytes: "length (state_bytes st) = 64"
  by (induction st rule: state_bytes.induct) (simp add: be_bytes_def)

lemma length_sha512: "length (sha512 m) = 64"
  by (simp add: sha512_def length_state_bytes)

lemma length_hmac_sha512: "length (hmac_sha512 k m) = 64"
  by (simp add: hmac_sha512_def Let_def length_sha512)

lemma length_hex: "length (hex bs) = 2 * length bs"
  by (induction bs) (simp_all add: hex_def)

lemma length_getHmac: "length (getHmac u s) = 128"
  by (simp add: getHmac_def length_hex length_hmac_sha512)

text \<open>
  Claim C3 fails as stated: per-call options are merged over the request configuration
  key by key, so options that carry \<^verbatim>\<open>headers\<close> replace the \<^verbatim>\<open>headers\<close> object
  with the signature. With the options \<^verbatim>\<open>{headers: {}}\<close> the request has no
  \<^verbatim>\<open>apisign\<close> header.
\<close>

theorem apisign_missing_when_headers_overridden:
  "property caller_headers_world
     (get_prop (last (sent (snd (http example_client ''/public/getmarkets'' (Some 0)
                                   caller_headers_world)))) ''headers'')
     ''apisign''
   \<noteq> VStr (getHmac (fullUrl_of example_client ''/public/getmarkets'' (Some 0)
                      caller_headers_world)
             (apisecret (options example_client)))"
proof -
  have t: "params_target (Some 0) caller_headers_world = VObj []"
    by (simp add: params_target_def options_of_def deref_def caller_headers_world_def
        get_prop_def)
  have f: "final_options example_client (Some 0) caller_headers_world = [(''headers'', VObj [])]"
    by (simp add: final_options_def t options_of_def)
       (simp add: deref_def caller_headers_world_def delete_prop_def)
  show ?thesis
    by (simp add: last_sent_http request_of_def f default_request_def Object_assign_plain
        literal_keys_not_index set_prop_def get_prop_def property_def)
qed

text \<open>
  Claim C3, amended: for every request whose per-call options set neither \<^verbatim>\<open>headers\<close>
  nor \<^verbatim>\<open>url\<close>, the \<^verbatim>\<open>url\<close> of the request sent is the full URL the call has built,
  the \<^verbatim>\<open>headers\<close> of the request are the single header \<^verbatim>\<open>apisign\<close>, and its value is
  the lowercase hexadecimal HMAC-SHA512 of that same URL keyed with the API secret; such a
  value is always 128 characters long, all of them lowercase hexadecimal digits.
\<close>

theorem apisign_is_hmac_of_sent_url:
  assumes "\<not> has_prop (options_of optarg w) ''headers''"
    and "\<not> has_prop (options_of optarg w) ''url''"
  shows "fst (snd (fst (http_request self path optarg w))) = fullUrl_of self path optarg w
         \<and> get_prop (last (sent (snd (http self path optarg w)))) ''url''
           = VStr (fullUrl_of self path optarg w)
         \<and> get_prop (last (sent (snd (http self path optarg w)))) ''headers''
           = VObj [(''apisign'',
                    VStr (getHmac (fullUrl_of self path optarg w) (apisecret (options self))))]
         \<and> getHmac (fullUrl_of self path optarg w) (apisecret (options self))
           = hex (hmac_sha512 (map of_char (apisecret (options self)))
                    (map of_char (fullUrl_of self path optarg w)))
         \<and> length (getHmac (fullUrl_of self path optarg w) (apisecret (options self))) = 128
         \<and> list_all lower_hex_char
              (getHmac (fullUrl_of self path optarg w) (apisecret (options self)))"
proof -
  have "get_prop (request_of self path optarg w) ''headers''
        = get_prop (default_request self (fullUrl_of self path optarg w)) ''headers''"
    using assms(1) by (rule request_default_prop) simp_all
  then have headers: "get_prop (last (sent (snd (http self path optarg w)))) ''headers''
           = VObj [(''apisign'',
                    VStr (getHmac (fullUrl_of self path optarg w) (apisecret (options self))))]"
    by (simp add: last_sent_http default_request_def get_prop_def)
  have "get_prop (request_of self path optarg w) ''url''
        = get_prop (default_request self (fullUrl_of self path optarg w)) ''url''"
    using assms(2) by (rule request_default_prop) simp_all
  then have url: "get_prop (last (sent (snd (http self path optarg w)))) ''url''
           = VStr (fullUrl_of self path optarg w)"
    by (simp add: last_sent_http default_request_def get_prop_def)
  have built: "fst (snd (fst (http_request self path optarg w))) = fullUrl_of self path optarg w"
    by (simp add: http_request_fst)
  have lower: "list_all lower_hex_char
              (getHmac (fullUrl_of self path optarg w) (apisecret (options self)))"
    unfolding getHmac_def by (rule hex_lower)
  have digest: "getHmac (fullUrl_of self path optarg w) (apisecret (options self))
           = hex (hmac_sha512 (map of_char (apisecret (options self)))
                    (map of_char (fullUrl_of self path optarg w)))"
    by (simp add: getHmac_def)
  show ?thesis
    by (intro conjI built url headers digest length_getHmac lower)
qed

theorem apisign_is_hmac_of_sent_url_witness:
  "(\<not> has_prop (options_of None (example_world (answer one_summary))) ''headers''
    \<and> \<not> has_prop (options_of None (example_world (answer one_summary))) ''url'')
   \<and> (fst (snd (fst (http_request example_client ''/public/getmarkets'' None
                        (example_world (answer one_summary)))))
        = fullUrl_of example_client ''/public/getmarkets'' None
            (example_world (answer one_summary))
      \<and> get_prop (last (sent (snd (http example_client ''/public/getmarkets'' None
                                    (example_world (answer one_summary)))))) ''url''
        = VStr (fullUrl_of example_client ''/public/getmarkets'' None
                  (example_world (answer one_summary)))
      \<and> get_prop (last (sent (snd (http example_client ''/public/getmarkets'' None
                                    (example_world (answer one_summary)))))) ''headers''
        = VObj [(''apisign'',
                 VStr (getHmac (fullUrl_of example_client ''/public/getmarkets'' None
                                  (example_world (answer one_summary)))
                         (apisecret (options example_client))))]
      \<and> getHmac (fullUrl_of example_client ''/public/getmarkets'' None
                    (example_world (answer one_summary)))
           (apisecret (options example_client))
        = hex (hmac_sha512 (map of_char (apisecret (options example_client)))
                 (map of_char (fullUrl_of example_client ''/public/getmarkets'' None
                                 (example_world (answer one_summary)))))
      \<and> length (getHmac (fullUrl_of example_client ''/public/getmarkets'' None
                            (example_world (answer one_summary)))
                   (apisecret (options example_client))) = 128
      \<and> list_all lower_hex_char
           (getHmac (fullUrl_of example_client ''/public/getmarkets'' None
                       (example_world (answer one_summary)))
              (apisecret (options example_client))))"
proof -
  have h: "\<not> has_prop (options_of None (example_world (answer one_summary))) ''headers''"
    and u: "\<not> has_prop (options_of None (example_world (answer one_summary))) ''url''"
    by (simp_all add: has_prop_def options_of_def)
  show ?thesis
    by (rule conjI [OF conjI [OF h u] apisign_is_hmac_of_sent_url [OF h u]])
qed

subsection \<open>Calls made by the endpoint methods\<close>

lemma http_with_params_eq:
  "http_with_params self path ps w
   = http self path (Some (Suc (next_addr w))) (after_literals ps w)"
  by (simp add: http_with_params_def alloc_def after_literals_def Let_def)

lemma after_literals_frame [simp]:
  "network (after_literals ps w) = network w" "sent (after_literals ps w) = sent w"
  "AXIOS_DEFAULTS (after_literals ps w) = AXIOS_DEFAULTS w"
  "entropy (after_literals ps w) = entropy w" "drawn (after_literals ps w) = drawn w"
  by (simp_all add: after_literals_def)

lemma getNonce_after_literals: "fst (getNonce (after_literals ps w)) = fst (getNonce w)"
  by (simp add: getNonce_eq)

lemma literals_options:
  "options_of (Some (Suc (next_addr w))) (after_literals ps w) = [(''params'', VRef (next_addr w))]"
  by (simp add: options_of_def deref_def after_literals_def)

lemma literals_target:
  "params_target (Some (Suc (next_addr w))) (after_literals ps w) = VRef (next_addr w)"
  by (simp add: params_target_def literals_options get_prop_def)

lemma literals_merged:
  "merged_params self (Some (Suc (next_addr w))) (after_literals ps w)
   = Object_assign ps [(''apikey'', VStr (apikey (options self))),
                       (''nonce'', VStr (fst (getNonce w)))]"
  by (simp add: merged_params_def literals_target getNonce_after_literals)
     (simp add: deref_def after_literals_def)

lemma literals_final: "final_options self (Some (Suc (next_addr w))) (after_literals ps w) = []"
  by (simp add: final_options_def literals_target literals_options delete_prop_def)

lemma literals_request:
  "request_of self path (Some (Suc (next_addr w))) (after_literals ps w)
   = default_request self
       (url_join [''https://bittrex.com/api/'', version_of self, path,
                  ''?'' @ stringify (Object_assign ps
                                      [(''apikey'', VStr (apikey (options self))),
                                       (''nonce'', VStr (fst (getNonce w)))])])"
  by (simp add: request_of_def literals_final Object_assign_Nil fullUrl_of_def
      querystring_of_def literals_target literals_merged)

lemma http_with_params_frame:
  "network (snd (http_with_params self path ps w)) = network w"
  "sent (snd (http_with_params self path ps w))
   = sent w @ [request_of self path (Some (Suc (next_addr w))) (after_literals ps w)]"
  by (simp_all add: http_with_params_eq http_frame)

lemma last_response_http_with_params:
  "last_response self (snd (http_with_params self path ps w))
   = network w (axios self)
       (request_of self path (Some (Suc (next_addr w))) (after_literals ps w))"
  by (simp add: last_response_def http_with_params_frame)

lemma http_with_params_fst:
  "fst (http_with_params self path ps w)
   = http_decide (snd (http_with_params self path ps w))
       (last_response self (snd (http_with_params self path ps w)))"
  by (simp add: http_with_params_eq http_fst)

lemma snd_result_of [simp]: "snd (result_of rw) = snd rw"
  by (cases rw; cases "fst rw") (auto simp: result_of_def)

lemma http_decide_success:
  assumes "status ret = 200" "data ret = VObj body" "truthy (get_prop body ''success'')"
  shows "http_decide w (Inr ret) = Inr ret"
  using assms by (simp add: http_decide_def)

lemma received_envelopeD:
  assumes "received_envelope self w body"
  obtains ret where "last_response self w = Inr ret" "status ret = 200" "data ret = VObj body"
    "truthy (get_prop body ''success'')"
  using assms by (auto simp: received_envelope_def split: sum.splits)

lemma result_of_http:
  assumes "received_envelope self (snd (http self path optarg w)) body"
  shows "fst (result_of (http self path optarg w)) = Inr (get_prop body ''result'')"
proof -
  from assms obtain ret where r: "last_response self (snd (http self path optarg w)) = Inr ret"
    "status ret = 200" "data ret = VObj body" "truthy (get_prop body ''success'')"
    by (rule received_envelopeD)
  then have "fst (http self path optarg w) = Inr ret"
    by (simp add: http_fst http_decide_success)
  then show ?thesis
    using r(3) by (cases "http self path optarg w") (simp add: result_of_def)
qed

lemma result_of_http_with_params:
  assumes "received_envelope self (snd (http_with_params self path ps w)) body"
  shows "fst (result_of (http_with_params self path ps w)) = Inr (get_prop body ''result'')"
  using assms unfolding http_with_params_eq by (rule result_of_http)

subsection \<open>What the endpoint methods return\<close>

lemma issued_http: "issued_one_request w (snd (http self path optarg w))"
  by (simp add: issued_one_request_def http_frame)

lemma issued_http_with_params: "issued_one_request w (snd (http_with_params self path ps w))"
  by (simp add: issued_one_request_def http_with_params_frame)

lemma alloc_frame [simp]:
  "network (snd (alloc ob w)) = network w" "sent (snd (alloc ob w)) = sent w"
  by (simp_all add: alloc_def Let_def)

lemma issued_after_alloc:
  "issued_one_request w (snd (http self path optarg (snd (alloc ob w))))"
  by (simp add: issued_one_request_def http_frame)

lemma parse_index_0: "parse_index ''0'' = Some 0"
  by code_simp

lemma snd_getMarketSummary:
  "snd (getMarketSummary self tickerA tickerB w)
   = snd (http_with_params self ''/public/getmarketsummary''
            [(''market'', VStr (tickerA @ ''-'' @ tickerB))] w)"
proof -
  obtain r w' where rw: "result_of (http_with_params self ''/public/getmarketsummary''
                            [(''market'', VStr (tickerA @ ''-'' @ tickerB))] w) = (r, w')"
    by (cases "result_of (http_with_params self ''/public/getmarketsummary''
                            [(''market'', VStr (tickerA @ ''-'' @ tickerB))] w)")
  then have "w' = snd (http_with_params self ''/public/getmarketsummary''
                            [(''market'', VStr (tickerA @ ''-'' @ tickerB))] w)"
    using snd_result_of [of "http_with_params self ''/public/getmarketsummary''
                            [(''market'', VStr (tickerA @ ''-'' @ tickerB))] w"] by simp
  with rw show ?thesis
    by (cases r) (simp_all add: getMarketSummary_def)
qed

lemma snd_cancelOrder:
  "snd (cancelOrder self uuid w)
   = snd (http_with_params self ''/market/cancel'' [(''uuid'', VStr uuid)] w)"
  by (cases "http_with_params self ''/market/cancel'' [(''uuid'', VStr uuid)] w";
      cases "fst (http_with_params self ''/market/cancel'' [(''uuid'', VStr uuid)] w)")
     (simp_all add: cancelOrder_def)

lemma getOrderHistory_eq:
  "getOrderHistory self optA optB w
   = (if truthy (opt_val optA) \<and> truthy (opt_val optB)
      then result_of (http_with_params self ''/account/getorderhistory''
                        [(''market'', VStr (opt_text optA @ ''-'' @ opt_text optB))] w)
      else result_of (http self ''/account/getorderhistory'' None w))"
  by (simp only: getOrderHistory_def)

lemma getOpenOrders_eq:
  "getOpenOrders self optA optB w
   = (if truthy (opt_val optA) \<and> truthy (opt_val optB)
      then result_of (http_with_params self ''/market/getopenorders''
                        [(''market'', VStr (opt_text optA @ ''-'' @ opt_text optB))] w)
      else result_of (http self ''/market/getopenorders'' None w))"
  by (simp only: getOpenOrders_def Let_def)

lemma issued_getOrderHistory: "issued_one_request w (snd (getOrderHistory self optA optB w))"
  by (simp add: getOrderHistory_eq issued_http issued_http_with_params)

lemma issued_getOpenOrders: "issued_one_request w (snd (getOpenOrders self optA optB w))"
  by (simp add: getOpenOrders_eq issued_http issued_http_with_params)

text \<open>Every method hands exactly one request to the transport.\<close>

lemma invoke_issues_one_request: "issued_one_request w (snd (invoke self m w))"
proof (cases m)
  case (GetMarketSummary a b)
  then show ?thesis
    by (simp add: snd_getMarketSummary issued_http_with_params)
next
  case (CancelOrder u)
  then show ?thesis
    by (simp add: snd_cancelOrder issued_http_with_params)
next
  case (GetOrderHistory a b)
  then show ?thesis
    by (simp add: issued_getOrderHistory)
next
  case (GetOpenOrders a b)
  then show ?thesis
    by (simp add: issued_getOpenOrders)
next
  case (Withdraw p)
  then show ?thesis
    by (simp add: withdraw_def split_def Let_def issued_after_alloc)
qed (simp_all add: getMarkets_def getCurrencies_def getTicker_def getMarketSummaries_def
      getOrderBook_def getMarketHistory_def getBalances_def getBalance_def
      getDepositHistory_def getDepositAddress_def getOrder_def getWithdrawlHistory_def
      buyLimit_def sellLimit_def Let_def issued_http issued_http_with_params)

lemma plain_method_result:
  assumes "call = result_of (http self path optarg w0)"
    and "received_envelope self (snd call) body"
  shows "fst call = Inr (get_prop body ''result'')"
  using assms by (simp add: result_of_http)

lemma params_method_result:
  assumes "call = result_of (http_with_params self path ps w)"
    and "received_envelope self (snd call) body"
  shows "fst call = Inr (get_prop body ''result'')"
  using assms by (simp add: result_of_http_with_params)

lemma getOrderHistory_result:
  assumes "received_envelope self (snd (getOrderHistory self optA optB w)) body"
  shows "fst (getOrderHistory self optA optB w) = Inr (get_prop body ''result'')"
proof (cases "truthy (opt_val optA) \<and> truthy (opt_val optB)")
  case True
  then have "getOrderHistory self optA optB w
             = result_of (http_with_params self ''/account/getorderhistory''
                 [(''market'', VStr (opt_text optA @ ''-'' @ opt_text optB))] w)"
    by (simp add: getOrderHistory_eq)
  then show ?thesis
    using assms by (rule params_method_result)
next
  case False
  then have "getOrderHistory self optA optB w
             = result_of (http self ''/account/getorderhistory'' None w)"
    by (simp only: getOrderHistory_eq if_False)
  then show ?thesis
    using assms by (rule plain_method_result)
qed

lemma getOpenOrders_result:
  assumes "received_envelope self (snd (getOpenOrders self optA optB w)) body"
  shows "fst (getOpenOrders self optA optB w) = Inr (get_prop body ''result'')"
proof (cases "truthy (opt_val optA) \<and> truthy (opt_val optB)")
  case True
  then have "getOpenOrders self optA optB w
             = result_of (http_with_params self ''/market/getopenorders''
                 [(''market'', VStr (opt_text optA @ ''-'' @ opt_text optB))] w)"
    by (simp add: getOpenOrders_eq)
  then show ?thesis
    using assms by (rule params_method_result)
next
  case False
  then have "getOpenOrders self optA optB w
             = result_of (http self ''/market/getopenorders'' None w)"
    by (simp only: getOpenOrders_eq if_False)
  then show ?thesis
    using assms by (rule plain_method_result)
qed

lemma withdraw_result:
  "received_envelope self (snd (withdraw self params w)) body
   \<Longrightarrow> fst (withdraw self params w) = Inr (get_prop body ''result'')"
  by (simp add: withdraw_def Let_def split_def result_of_http)

lemma getMarketSummary_result:
  assumes "received_envelope self (snd (getMarketSummary self tickerA tickerB w)) body"
  shows "fst (getMarketSummary self tickerA tickerB w)
         = GetV (snd (getMarketSummary self tickerA tickerB w)) (get_prop body ''result'') ''0''"
proof -
  let ?call = "http_with_params self ''/public/getmarketsummary''
                 [(''market'', VStr (tickerA @ ''-'' @ tickerB))] w"
  from assms have "received_envelope self (snd ?call) body"
    by (simp only: snd_getMarketSummary)
  then have "fst (result_of ?call) = Inr (get_prop body ''result'')"
    by (simp add: result_of_http_with_params)
  then have "result_of ?call = (Inr (get_prop body ''result''), snd ?call)"
    by (simp add: prod_eq_iff)
  then show ?thesis
    unfolding snd_getMarketSummary by (simp add: getMarketSummary_def)
qed

lemma cancelOrder_result:
  assumes "received_envelope self (snd (cancelOrder self uuid w)) body"
  shows "fst (cancelOrder self uuid w) = Inr VUndefined"
proof -
  let ?call = "http_with_params self ''/market/cancel'' [(''uuid'', VStr uuid)] w"
  from assms have "received_envelope self (snd ?call) body"
    by (simp only: snd_cancelOrder)
  then obtain ret where "last_response self (snd ?call) = Inr ret"
    "status ret = 200" "data ret = VObj body" "truthy (get_prop body ''success'')"
    by (rule received_envelopeD)
  then have "fst ?call = Inr ret"
    by (simp add: http_with_params_fst http_decide_success)
  then show ?thesis
    by (cases ?call) (simp add: cancelOrder_def)
qed

lemma received_one_summary:
  "received_envelope example_client
     (snd (http_with_params example_client path ps (example_world (answer one_summary))))
     [(''success'', VBool True), (''message'', VStr []),
      (''result'', VArr [VObj [(''MarketName'', VStr ''BTC-LTC'')]])]"
  by (simp add: received_envelope_def last_response_http_with_params example_world_def
      answer_def one_summary_def get_prop_def)

text \<open>
  Claim C7 fails as stated: \<^verbatim>\<open>cancelOrder\<close> is a wrapper method that does not return the
  envelope's \<^verbatim>\<open>result\<close>. It is declared \<^verbatim>\<open>Promise<void>\<close>, awaits the call and returns
  nothing, whatever the envelope holds.
\<close>

theorem cancelOrder_returns_nothing:
  "received_envelope example_client
     (snd (cancelOrder example_client ''an-order-uuid'' (example_world (answer one_summary))))
     [(''success'', VBool True), (''message'', VStr []),
      (''result'', VArr [VObj [(''MarketName'', VStr ''BTC-LTC'')]])]
   \<and> fst (cancelOrder example_client ''an-order-uuid'' (example_world (answer one_summary)))
     = Inr VUndefined
   \<and> get_prop [(''success'', VBool True), (''message'', VStr []),
                (''result'', VArr [VObj [(''MarketName'', VStr ''BTC-LTC'')]])] ''result''
     \<noteq> VUndefined"
proof -
  have r: "received_envelope example_client
     (snd (cancelOrder example_client ''an-order-uuid'' (example_world (answer one_summary))))
     [(''success'', VBool True), (''message'', VStr []),
      (''result'', VArr [VObj [(''MarketName'', VStr ''BTC-LTC'')]])]"
    by (simp only: snd_cancelOrder received_one_summary)
  then show ?thesis
    by (simp add: cancelOrder_result get_prop_def)
qed

text \<open>
  Claim C7, amended. For every endpoint method and every call of it that is successful
  (the one request the call hands to the transport is answered with status 200 and an
  envelope whose \<^verbatim>\<open>success\<close> is truthy): \<^verbatim>\<open>getMarketSummary\<close> returns the first element
  of the envelope's \<^verbatim>\<open>result\<close> when that is a non-empty array (the single element of a
  one-element array), and in general what reading index 0 of the result gives;
  \<^verbatim>\<open>cancelOrder\<close> returns nothing; every other method returns the envelope's \<^verbatim>\<open>result\<close>
  unmodified.
\<close>

theorem methods_return_the_result:
  assumes "received_envelope self (snd (invoke self m w)) body"
  shows "issued_one_request w (snd (invoke self m w))
         \<and> fst (invoke self m w) =
           (case m of
              GetMarketSummary a b \<Rightarrow>
                (case get_prop body ''result'' of
                   VArr (x # xs) \<Rightarrow> Inr x
                 | r \<Rightarrow> GetV (snd (invoke self m w)) r ''0'')
            | CancelOrder u \<Rightarrow> Inr VUndefined
            | _ \<Rightarrow> Inr (get_prop body ''result''))"
proof (rule conjI)
  show "issued_one_request w (snd (invoke self m w))"
    by (rule invoke_issues_one_request)
next
  show "fst (invoke self m w) =
           (case m of
              GetMarketSummary a b \<Rightarrow>
                (case get_prop body ''result'' of
                   VArr (x # xs) \<Rightarrow> Inr x
                 | r \<Rightarrow> GetV (snd (invoke self m w)) r ''0'')
            | CancelOrder u \<Rightarrow> Inr VUndefined
            | _ \<Rightarrow> Inr (get_prop body ''result''))"
  proof (cases m)
    case (GetMarketSummary a b)
    with assms have "fst (invoke self m w)
       = GetV (snd (invoke self m w)) (get_prop body ''result'') ''0''"
      by (simp add: getMarketSummary_result)
    with GetMarketSummary show ?thesis
      by (auto simp: parse_index_0 split: jsval.splits list.splits)
  next
    case (CancelOrder u)
    with assms show ?thesis
      by (simp add: cancelOrder_result)
  next
    case (GetOrderHistory a b)
    with assms show ?thesis
      by (simp add: getOrderHistory_result)
  next
    case (GetOpenOrders a b)
    with assms show ?thesis
      by (simp add: getOpenOrders_result)
  next
    case (Withdraw p)
    with assms show ?thesis
      by (simp add: withdraw_result)
  next
    case GetMarkets
    with assms show ?thesis
      by (simp add: getMarkets_def result_of_http)
  next
    case GetCurrencies
    with assms show ?thesis
      by (simp add: getCurrencies_def result_of_http)
  next
    case GetMarketSummaries
    with assms show ?thesis
      by (simp add: getMarketSummaries_def result_of_http)
  next
    case GetBalances
    with assms show ?thesis
      by (simp add: getBalances_def result_of_http)
  next
    case (GetTicker a b)
    with assms show ?thesis
      by (simp add: getTicker_def Let_def result_of_http_with_params)
  next
    case (GetOrderBook a b t)
    with assms show ?thesis
      by (simp add: getOrderBook_def result_of_http_with_params)
  next
    case (GetMarketHistory a b)
    with assms show ?thesis
      by (simp add: getMarketHistory_def result_of_http_with_params)
  next
    case (GetBalance c)
    with assms show ?thesis
      by (simp add: getBalance_def result_of_http_with_params)
  next
    case (GetDepositHistory c)
    with assms show ?thesis
      by (simp add: getDepositHistory_def result_of_http_with_params)
  next
    case (GetDepositAddress c)
    with assms show ?thesis
      by (simp add: getDepositAddress_def result_of_http_with_params)
  next
    case (GetOrder u)
    with assms show ?thesis
      by (simp add: getOrder_def result_of_http_with_params)
  next
    case (GetWithdrawlHistory c)
    with assms show ?thesis
      by (simp add: getWithdrawlHistory_def result_of_http_with_params)
  next
    case (BuyLimit a b q r)
    with assms show ?thesis
      by (simp add: buyLimit_def Let_def result_of_http_with_params)
  next
    case (SellLimit a b q r)
    with assms show ?thesis
      by (simp add: sellLimit_def Let_def result_of_http_with_params)
  qed
qed

theorem methods_return_the_result_witness:
  "received_envelope example_client
     (snd (invoke example_client (GetMarketSummary ''BTC'' ''LTC'')
             (example_world (answer one_summary))))
     [(''success'', VBool True), (''message'', VStr []),
      (''result'', VArr [VObj [(''MarketName'', VStr ''BTC-LTC'')]])]
   \<and> fst (invoke example_client (GetMarketSummary ''BTC'' ''LTC'')
            (example_world (answer one_summary)))
     = Inr (VObj [(''MarketName'', VStr ''BTC-LTC'')])"
proof -
  have r: "received_envelope example_client
     (snd (invoke example_client (GetMarketSummary ''BTC'' ''LTC'')
             (example_world (answer one_summary))))
     [(''success'', VBool True), (''message'', VStr []),
      (''result'', VArr [VObj [(''MarketName'', VStr ''BTC-LTC'')]])]"
    by (simp only: invoke.simps snd_getMarketSummary received_one_summary)
  from methods_return_the_result [OF r] have
    "fst (invoke example_client (GetMarketSummary ''BTC'' ''LTC'')
            (example_world (answer one_summary)))
     = Inr (VObj [(''MarketName'', VStr ''BTC-LTC'')])"
    by (simp add: get_prop_def)
  with r show ?thesis
    by (rule conjI)
qed

subsection \<open>The parameters of a request\<close>

lemma qsEscape_literals:
  "qsEscape [] = []" "qsEscape ''currency'' = ''currency''" "qsEscape ''apikey'' = ''apikey''"
  "qsEscape ''nonce'' = ''nonce''"
  by code_simp+

lemma stringify_currency_undefined:
  "stringify (Object_assign [(''currency'', VUndefined)] [(''apikey'', VStr key), (''nonce'', VStr n)])
   = ''currency=&apikey='' @ qsEscape key @ ''&nonce='' @ qsEscape n"
proof -
  have "Object_assign [(''currency'', VUndefined)] [(''apikey'', VStr key), (''nonce'', VStr n)]
        = [(''currency'', VUndefined), (''apikey'', VStr key), (''nonce'', VStr n)]"
    by (simp add: Object_assign_injected set_prop_def)
  moreover have "own_keys_order [(''currency'', VUndefined), (''apikey'', VStr key), (''nonce'', VStr n)]
        = [(''currency'', VUndefined), (''apikey'', VStr key), (''nonce'', VStr n)]"
    by (rule own_keys_order_plain) (simp add: literal_keys_not_index)
  ultimately show ?thesis
    by (simp add: stringify_def field_def qsEscape_literals)
qed

lemma literals_entries:
  "own_entries (after_literals ps w)
     (params_target (Some (Suc (next_addr w))) (after_literals ps w)) = ps"
  by (simp add: literals_target) (simp add: deref_def after_literals_def)

lemma literals_querystring:
  "querystring_of self (Some (Suc (next_addr w))) (after_literals ps w)
   = stringify (Object_assign ps [(''apikey'', VStr (apikey (options self))),
                                  (''nonce'', VStr (fst (getNonce w)))])"
  by (simp add: querystring_of_def literals_target literals_merged)

lemma sent_url_with_params:
  "get_prop (last (sent (snd (result_of (http_with_params self path ps w))))) ''url''
   = VStr (url_join [''https://bittrex.com/api/'', version_of self, path,
                     ''?'' @ stringify (Object_assign ps
                                         [(''apikey'', VStr (apikey (options self))),
                                          (''nonce'', VStr (fst (getNonce w)))])])"
  by (simp add: http_with_params_frame literals_request default_request_def get_prop_def)

text \<open>
  Claim C10: when the caller omits the currency, \<^verbatim>\<open>getDepositHistory\<close> and
  \<^verbatim>\<open>getWithdrawlHistory\<close> still pass the executor a parameter mapping with the key
  \<^verbatim>\<open>currency\<close> (its value is \<^verbatim>\<open>undefined\<close>), the query string begins with the entry
  \<^verbatim>\<open>currency=\<close> with an empty value, and that query string is part of the URL of the
  request sent.
\<close>

theorem omitted_currency_is_still_sent:
  "getDepositHistory self None w
     = result_of (http self ''/account/getdeposithistory'' (Some (Suc (next_addr w)))
                    (after_literals [(''currency'', VUndefined)] w))
   \<and> getWithdrawlHistory self None w
     = result_of (http self ''/account/getwithdrawalhistory'' (Some (Suc (next_addr w)))
                    (after_literals [(''currency'', VUndefined)] w))
   \<and> own_entries (after_literals [(''currency'', VUndefined)] w)
        (params_target (Some (Suc (next_addr w))) (after_literals [(''currency'', VUndefined)] w))
     = [(''currency'', VUndefined)]
   \<and> querystring_of self (Some (Suc (next_addr w))) (after_literals [(''currency'', VUndefined)] w)
     = ''currency=&apikey='' @ qsEscape (apikey (options self))
       @ ''&nonce='' @ qsEscape (fst (getNonce w))
   \<and> get_prop (last (sent (snd (getDepositHistory self None w)))) ''url''
     = VStr (url_join [''https://bittrex.com/api/'', version_of self,
                       ''/account/getdeposithistory'',
                       ''?currency=&apikey='' @ qsEscape (apikey (options self))
                       @ ''&nonce='' @ qsEscape (fst (getNonce w))])
   \<and> get_prop (last (sent (snd (getWithdrawlHistory self None w)))) ''url''
     = VStr (url_join [''https://bittrex.com/api/'', version_of self,
                       ''/account/getwithdrawalhistory'',
                       ''?currency=&apikey='' @ qsEscape (apikey (options self))
                       @ ''&nonce='' @ qsEscape (fst (getNonce w))])"
proof -
  have d: "getDepositHistory self None w
     = result_of (http self ''/account/getdeposithistory'' (Some (Suc (next_addr w)))
                    (after_literals [(''currency'', VUndefined)] w))"
    by (simp add: getDepositHistory_def opt_val_def http_with_params_eq)
  have h: "getWithdrawlHistory self None w
     = result_of (http self ''/account/getwithdrawalhistory'' (Some (Suc (next_addr w)))
                    (after_literals [(''currency'', VUndefined)] w))"
    by (simp add: getWithdrawlHistory_def opt_val_def http_with_params_eq)
  have q: "querystring_of self (Some (Suc (next_addr w)))
             (after_literals [(''currency'', VUndefined)] w)
     = ''currency=&apikey='' @ qsEscape (apikey (options self))
       @ ''&nonce='' @ qsEscape (fst (getNonce w))"
    by (simp only: literals_querystring stringify_currency_undefined)
  have du: "get_prop (last (sent (snd (getDepositHistory self None w)))) ''url''
     = VStr (url_join [''https://bittrex.com/api/'', version_of self,
                       ''/account/getdeposithistory'',
                       ''?currency=&apikey='' @ qsEscape (apikey (options self))
                       @ ''&nonce='' @ qsEscape (fst (getNonce w))])"
    by (simp only: getDepositHistory_def opt_val_def option.case sent_url_with_params
        stringify_currency_undefined) simp
  have hu: "get_prop (last (sent (snd (getWithdrawlHistory self None w)))) ''url''
     = VStr (url_join [''https://bittrex.com/api/'', version_of self,
                       ''/account/getwithdrawalhistory'',
                       ''?currency=&apikey='' @ qsEscape (apikey (options self))
                       @ ''&nonce='' @ qsEscape (fst (getNonce w))])"
    by (simp only: getWithdrawlHistory_def opt_val_def option.case sent_url_with_params
        stringify_currency_undefined) simp
  show ?thesis
    by (intro conjI d h literals_entries q du hu)
qed



subsection \<open>The URL of a request\<close>













end
